theory Spec2Isabelle
  imports Complex_Main "HOL-Library.Sublist" "HOL-Library.AList"
begin

section \<open>JavaScript values\<close>

text \<open>
  A JavaScript string is a sequence of UTF-16 code units; \<open>length\<close>, \<open>substring\<close>, a
  regular expression without the \<open>u\<close> flag and \<open>endsWith\<close> all count code units.
  A string is therefore modelled as the list of its code units, each a natural number.
  \<open>js\<close> turns a literal of the source text into that form.
\<close>

type_synonym jsstring = "nat list"

definition js :: "string \<Rightarrow> jsstring" where
  "js s = map of_char s"

text \<open>The decimal rendering of a non-negative integer, as a template literal prints
  \<open>Date.now()\<close>.\<close>

fun show_nat :: "nat \<Rightarrow> jsstring" where
  "show_nat n = (if n < 10 then [48 + n] else show_nat (n div 10) @ [48 + n mod 10])"

declare show_nat.simps [simp del]

text \<open>
  Values as \<open>JSON.parse\<close> and the record store produce them. A number is kept as a
  rational (every finite double is one; \<open>-0\<close> and \<open>0\<close> coincide, and both are falsy).
  An object is the list of its own enumerable properties in insertion order. An array
  carries, besides its elements, the named properties that were assigned to it.
\<close>

datatype jsval =
    JNull
  | JBool bool
  | JNum rat
  | JStr jsstring
  | JArr "jsval list" "(jsstring \<times> jsval) list"
  | JObj "(jsstring \<times> jsval) list"

text \<open>Truthiness, as \<open>!x\<close>, \<open>x || y\<close> and \<open>if (x)\<close> test it.\<close>

fun truthy :: "jsval \<Rightarrow> bool" where
  "truthy JNull = False"
| "truthy (JBool b) = b"
| "truthy (JNum r) = (r \<noteq> 0)"
| "truthy (JStr s) = (s \<noteq> [])"
| "truthy (JArr xs ps) = True"
| "truthy (JObj fs) = True"

text \<open>Own enumerable properties, as the spread \<open>{...x}\<close> copies them.\<close>

fun own_props :: "jsval \<Rightarrow> (jsstring \<times> jsval) list" where
  "own_props (JObj fs) = fs"
| "own_props (JArr xs ps) = zip (map show_nat [0..<length xs]) xs @ ps"
| "own_props v = []"

text \<open>
  Reading a property \<open>x.name\<close> whose name is neither an array index, nor \<open>length\<close>,
  nor a member of a prototype (every name the source reads is of that kind);
  \<open>None\<close> is \<open>undefined\<close>.
\<close>

definition get_prop :: "jsval \<Rightarrow> jsstring \<Rightarrow> jsval option" where
  "get_prop v name = map_of (own_props v) name"

definition truthy_opt :: "jsval option \<Rightarrow> bool" where
  "truthy_opt v = (case v of None \<Rightarrow> False | Some x \<Rightarrow> truthy x)"

definition opt_str :: "jsstring option \<Rightarrow> jsval" where
  "opt_str s = (case s of None \<Rightarrow> JNull | Some x \<Rightarrow> JStr x)"

section \<open>Errors and the runtime\<close>

text \<open>A thrown value: the error's name, its \<open>message\<close> and its \<open>stack\<close> (when it has one).\<close>

datatype js_error = JsError (err_name: jsstring) (message: jsstring) (stack: "jsstring option")

text \<open>
  What the functions below do to the outside world, in the order they do it. The text of
  a console entry is the fixed leading text of the logged message; interpolated values
  are left out.
\<close>

datatype effect =
    ConsoleLog string
  | ConsoleWarn string
  | ConsoleError string
  | S3GetObject "jsstring option" jsstring
  | S3PutObject jsstring jsstring "nat list" jsstring
  | GeminiGenerate "nat list"
  | DynamoPut jsval
  | DynamoGet jsstring
  | DynamoScan

text \<open>
  Built-ins of the runtime that the source calls and this development does not spell out:
  the stack text the engine records for a new error (given its name and message),
  \<open>Date.prototype.toISOString\<close> (given milliseconds), \<open>JSON.parse\<close> and
  \<open>JSON.stringify\<close>.
\<close>

record runtime =
  captureStackTrace :: "jsstring \<Rightarrow> jsstring \<Rightarrow> jsstring"
  toISOString :: "nat \<Rightarrow> jsstring"
  JSON_parse :: "jsstring \<Rightarrow> js_error + jsval"
  JSON_stringify :: "jsval \<Rightarrow> jsstring"

definition throw_new :: "'a runtime_scheme \<Rightarrow> string \<Rightarrow> jsstring \<Rightarrow> js_error" where
  "throw_new rt nm msg = JsError (js nm) msg (Some (captureStackTrace rt (js nm) msg))"

definition new_Error :: "'a runtime_scheme \<Rightarrow> jsstring \<Rightarrow> js_error" where
  "new_Error rt msg = throw_new rt ''Error'' msg"

text \<open>
  Assignment \<open>x.name = v\<close> in module (strict) code, for a name that is neither an index
  nor \<open>length\<close>: it sets the property of an object or an array and raises a
  \<open>TypeError\<close> on \<open>null\<close> and on a primitive. The message texts of the errors the
  engine raises are V8's wording, shortened where V8 would print the value.
\<close>

fun assign_prop :: "'a runtime_scheme \<Rightarrow> jsval \<Rightarrow> jsstring \<Rightarrow> jsval \<Rightarrow> js_error + jsval" where
  "assign_prop rt (JObj fs) name v = Inr (JObj (AList.update name v fs))"
| "assign_prop rt (JArr xs ps) name v = Inr (JArr xs (AList.update name v ps))"
| "assign_prop rt JNull name v =
     Inl (throw_new rt ''TypeError''
       (js ''Cannot set properties of null (setting '' @ [39] @ name @ [39] @ js '')''))"
| "assign_prop rt x name v =
     Inl (throw_new rt ''TypeError''
       (js ''Cannot create property '' @ [39] @ name @ [39] @ js '' on a primitive''))"

section \<open>\<open>decodeURIComponent\<close>\<close>

text \<open>
  The \<open>Decode\<close> operation of ECMAScript with an empty reserved set. Every \<open>%\<close> must be
  followed by two hexadecimal digits; an octet below 128 is the code unit itself; a
  larger one must start a well-formed UTF-8 sequence whose further octets are escapes
  too; the code point becomes one code unit, or a surrogate pair from 65536 on. In every
  other case the built-in raises \<open>URIError\<close>, here \<open>None\<close>.
\<close>

definition hexval :: "nat \<Rightarrow> nat option" where
  "hexval c =
     (if 48 \<le> c \<and> c \<le> 57 then Some (c - 48)
      else if 65 \<le> c \<and> c \<le> 70 then Some (c - 55)
      else if 97 \<le> c \<and> c \<le> 102 then Some (c - 87)
      else None)"

datatype uri_token = Unit nat | Octet nat

fun uri_tokens :: "jsstring \<Rightarrow> uri_token list option" where
  "uri_tokens [] = Some []"
| "uri_tokens (c # cs) =
     (if c = 37 then
        (case cs of
           a # b # rest \<Rightarrow>
             (case (hexval a, hexval b) of
                (Some x, Some y) \<Rightarrow> map_option ((#) (Octet (16 * x + y))) (uri_tokens rest)
              | _ \<Rightarrow> None)
         | _ \<Rightarrow> None)
      else map_option ((#) (Unit c)) (uri_tokens cs))"

fun continuation_octets :: "nat \<Rightarrow> uri_token list \<Rightarrow> nat list option" where
  "continuation_octets 0 ts = Some []"
| "continuation_octets (Suc n) (Octet b # ts) =
     (if 128 \<le> b \<and> b < 192 then map_option ((#) b) (continuation_octets n ts) else None)"
| "continuation_octets (Suc n) ts = None"

text \<open>The number of octets of the sequence a leading octet announces (0: not a leading octet).\<close>

definition utf8_length :: "nat \<Rightarrow> nat" where
  "utf8_length b =
     (if 192 \<le> b \<and> b < 224 then 2 else if 224 \<le> b \<and> b < 240 then 3
      else if 240 \<le> b \<and> b < 248 then 4 else 0)"

text \<open>The code point of a sequence, when it is neither overlong, nor a surrogate, nor
  beyond U+10FFFF.\<close>

definition utf8_code_point :: "nat \<Rightarrow> nat list \<Rightarrow> nat option" where
  "utf8_code_point b bs =
     (let v = fold (\<lambda>c acc. acc * 64 + (c - 128)) bs
                (b - (if length bs = 1 then 192 else if length bs = 2 then 224 else 240));
          least = (if length bs = 1 then 128 else if length bs = 2 then 2048 else 65536)
      in if least \<le> v \<and> v \<le> 1114111 \<and> \<not> (55296 \<le> v \<and> v \<le> 57343) then Some v else None)"

definition utf16_units :: "nat \<Rightarrow> jsstring" where
  "utf16_units v =
     (if v < 65536 then [v]
      else [55296 + (v - 65536) div 1024, 56320 + (v - 65536) mod 1024])"

fun decode_tokens :: "uri_token list \<Rightarrow> jsstring option" where
  "decode_tokens [] = Some []"
| "decode_tokens (Unit c # ts) = map_option ((#) c) (decode_tokens ts)"
| "decode_tokens (Octet b # ts) =
     (if b < 128 then map_option ((#) b) (decode_tokens ts)
      else if utf8_length b = 0 then None
      else (case continuation_octets (utf8_length b - 1) ts of
              None \<Rightarrow> None
            | Some bs \<Rightarrow>
                (case utf8_code_point b bs of
                   None \<Rightarrow> None
                 | Some v \<Rightarrow>
                     map_option ((@) (utf16_units v))
                       (decode_tokens (drop (utf8_length b - 1) ts)))))"

definition decodeURIComponent :: "jsstring \<Rightarrow> jsstring option" where
  "decodeURIComponent s = (case uri_tokens s of None \<Rightarrow> None | Some ts \<Rightarrow> decode_tokens ts)"

text \<open>\<^verbatim>\<open>key.replace(/\+/g, ' ')\<close>: every plus sign becomes a space.\<close>

definition plus_to_space :: "jsstring \<Rightarrow> jsstring" where
  "plus_to_space s = map (\<lambda>c. if c = 43 then 32 else c) s"

section \<open>Document Extractor: \<open>processPDFWithGemini\<close>\<close>

text \<open>
  The response of the inference backend, as far as the source inspects it:
  \<open>candidates[0].content.parts\<close>, \<open>promptFeedback.blockReason\<close> and the outcome of
  calling \<open>text()\<close>, which returns the payload or throws.
\<close>

datatype gemini_content = Content (parts: "jsval list option")

datatype gemini_candidate = Candidate (content: "gemini_content option")

datatype prompt_feedback = PromptFeedback (blockReason: "jsstring option")

record gemini_response =
  candidates :: "gemini_candidate list option"
  promptFeedback :: "prompt_feedback option"
  text_call :: "js_error + jsstring"

text \<open>What \<open>s3.getObject\<close> resolves to: \<open>Body\<close> is a \<open>Buffer\<close> of bytes or something else.\<close>

datatype s3_body = Buffer "nat list" | NotBuffer

record s3_object =
  Body :: s3_body
  ContentLength :: "nat option"
  ContentType :: "jsstring option"

text \<open>
  The environment of the pipeline. \<open>GEMINI_API_KEY\<close> is the module constant (the source
  binds it to a literal); \<open>generateContent\<close> answers the one request built from the PDF
  bytes (the instruction text and the schema are constants) with a rejection or with
  \<open>result.response\<close>; \<open>s3_getObject\<close> and \<open>db_put\<close> are the storage read and the table
  write, \<open>db_put\<close> giving the error when the write is rejected; \<open>Date_now i l\<close> is the
  clock read on source line \<open>l\<close> by the task of the \<open>i\<close>-th record of the event.
\<close>

record pipeline_env = runtime +
  GEMINI_API_KEY :: jsstring
  generateContent :: "nat list \<Rightarrow> js_error + gemini_response option"
  s3_getObject :: "jsstring \<Rightarrow> jsstring \<Rightarrow> js_error + s3_object"
  db_put :: "jsval \<Rightarrow> js_error option"
  Date_now :: "nat \<Rightarrow> nat \<Rightarrow> nat"

text \<open>\<open>genAI\<close> and \<open>modelInstance\<close> exist exactly when the key is a non-empty string.\<close>

definition modelInstance :: "pipeline_env \<Rightarrow> bool" where
  "modelInstance env \<longleftrightarrow> GEMINI_API_KEY env \<noteq> []"

text \<open>The test of line 153 for an invalid or empty response structure.\<close>

definition invalid_structure :: "gemini_response option \<Rightarrow> bool" where
  "invalid_structure response =
     (case response of
        None \<Rightarrow> True
      | Some r \<Rightarrow>
          (case candidates r of
             None \<Rightarrow> True
           | Some [] \<Rightarrow> True
           | Some (c # cs) \<Rightarrow>
               (case content c of
                  None \<Rightarrow> True
                | Some ct \<Rightarrow> (case parts ct of None \<Rightarrow> True | Some ps \<Rightarrow> ps = []))))"

text \<open>\<open>response.text()\<close>; the call is reached only for a response that exists.\<close>

definition response_text :: "pipeline_env \<Rightarrow> gemini_response option \<Rightarrow> js_error + jsstring" where
  "response_text env response =
     (case response of
        None \<Rightarrow> Inl (throw_new env ''TypeError''
                    (js ''Cannot read properties of undefined (reading '' @ [39] @ js ''text'' @ [39] @ js '')''))
      | Some r \<Rightarrow> text_call r)"

text \<open>Lines 172 to 175: the four assignments to the decoded value.\<close>

definition augment :: "pipeline_env \<Rightarrow> nat \<Rightarrow> jsval \<Rightarrow> jsstring option \<Rightarrow> jsstring option
    \<Rightarrow> js_error + jsval" where
  "augment env now extractedData s3Bucket s3Key =
     (case assign_prop env extractedData (js ''S3Bucket'') (opt_str s3Bucket) of
        Inl e \<Rightarrow> Inl e
      | Inr d1 \<Rightarrow>
     (case assign_prop env d1 (js ''S3Key'') (opt_str s3Key) of
        Inl e \<Rightarrow> Inl e
      | Inr d2 \<Rightarrow>
     (case assign_prop env d2 (js ''processingEngine'') (JStr (js ''Gemini-1.5-Flash-Latest'')) of
        Inl e \<Rightarrow> Inl e
      | Inr d3 \<Rightarrow>
          assign_prop env d3 (js ''extractionTimestamp'') (JStr (toISOString env now)))))"

text \<open>The body of the \<open>try\<close> block, lines 149 to 181.\<close>

definition gemini_try :: "pipeline_env \<Rightarrow> (nat \<Rightarrow> nat) \<Rightarrow> nat list \<Rightarrow> jsstring option
    \<Rightarrow> jsstring option \<Rightarrow> (js_error + jsval) \<times> effect list" where
  "gemini_try env clock pdfBuffer s3Bucket s3Key =
     (let tr0 = [ConsoleLog ''Sending request to Gemini API'', GeminiGenerate pdfBuffer] in
      case generateContent env pdfBuffer of
        Inl e \<Rightarrow> (Inl e, tr0)
      | Inr response \<Rightarrow>
          if invalid_structure response then
            (Inl (new_Error env
               (js ''Received an invalid or empty response structure from Gemini API.'')),
             tr0 @ [ConsoleError ''Invalid response structure from Gemini:''])
          else
            (case response_text env response of
               Inl e \<Rightarrow> (Inl e, tr0)
             | Inr jsonString \<Rightarrow>
                 (let tr1 = tr0 @ [ConsoleLog ''Raw JSON string from Gemini:''] in
                  case JSON_parse env jsonString of
                    Inl parseError \<Rightarrow>
                      (Inl (new_Error env (js ''Failed to parse JSON response from Gemini AI.'')),
                       tr1 @ [ConsoleError ''Error parsing JSON response from Gemini:'',
                              ConsoleError ''Received string that failed to parse:''])
                  | Inr decoded \<Rightarrow>
                      (let tr2 = tr1 @ [ConsoleLog ''Successfully parsed data from Gemini.''] in
                       case augment env (clock 175) decoded s3Bucket s3Key of
                         Inl e \<Rightarrow> (Inl e, tr2)
                       | Inr extractedData \<Rightarrow>
                           if \<not> truthy_opt (get_prop extractedData (js ''invoiceId''))
                           then (Inr extractedData,
                                 tr2 @ [ConsoleWarn ''Invoice ID not extracted by Gemini''])
                           else (Inr extractedData, tr2)))))"

text \<open>
  The \<open>catch\<close> block, lines 183 to 194. \<open>result\<close> is declared with \<open>const\<close> inside the
  \<open>try\<close> block, so the \<open>catch\<close> block is outside its scope and no outer binding of
  that name exists: evaluating the identifier there, also under \<open>?.\<close>, raises a
  \<open>ReferenceError\<close>.
\<close>

definition result_in_catch :: "pipeline_env \<Rightarrow> js_error + gemini_response option" where
  "result_in_catch env = Inl (throw_new env ''ReferenceError'' (js ''result is not defined''))"

definition key_or_unknown :: "jsstring option \<Rightarrow> jsstring" where
  "key_or_unknown s3Key =
     (case s3Key of None \<Rightarrow> js ''unknown'' | Some k \<Rightarrow> if k = [] then js ''unknown'' else k)"

definition block_reason :: "gemini_response option \<Rightarrow> jsstring option" where
  "block_reason response =
     (case response of
        None \<Rightarrow> None
      | Some r \<Rightarrow>
          (case promptFeedback r of
             None \<Rightarrow> None
           | Some fb \<Rightarrow>
               (case blockReason fb of
                  None \<Rightarrow> None
                | Some reason \<Rightarrow> if reason = [] then None else Some reason)))"

definition blocked_error :: "pipeline_env \<Rightarrow> jsstring option \<Rightarrow> gemini_response option \<Rightarrow> js_error" where
  "blocked_error env s3Key response =
     new_Error env
       (js ''Gemini processing blocked for document '' @ key_or_unknown s3Key @ js ''. Reason: ''
        @ (case block_reason response of None \<Rightarrow> js ''Safety Policy'' | Some reason \<Rightarrow> reason))"

definition failed_error :: "pipeline_env \<Rightarrow> jsstring option \<Rightarrow> js_error \<Rightarrow> js_error" where
  "failed_error env s3Key err =
     new_Error env
       (js ''Gemini processing failed for document '' @ key_or_unknown s3Key @ js ''. Error: ''
        @ message err)"

definition gemini_catch :: "pipeline_env \<Rightarrow> js_error \<Rightarrow> jsstring option \<Rightarrow> js_error \<times> effect list" where
  "gemini_catch env err s3Key =
     (let tr = [ConsoleError ''Error during Gemini API call or processing:''] in
      if sublist (js ''SAFETY'') (message err) then
        (case result_in_catch env of
           Inl referenceError \<Rightarrow> (referenceError, tr)
         | Inr response \<Rightarrow>
             (blocked_error env s3Key response,
              tr @ [ConsoleError ''Gemini API request blocked due to safety settings or other policy.'']))
      else
        (case result_in_catch env of
           Inl referenceError \<Rightarrow> (referenceError, tr)
         | Inr response \<Rightarrow>
             if block_reason response \<noteq> None then
               (blocked_error env s3Key response,
                tr @ [ConsoleError ''Gemini API request blocked due to safety settings or other policy.''])
             else (failed_error env s3Key err, tr)))"

definition processPDFWithGemini :: "pipeline_env \<Rightarrow> (nat \<Rightarrow> nat) \<Rightarrow> nat list \<Rightarrow> jsstring option
    \<Rightarrow> jsstring option \<Rightarrow> (js_error + jsval) \<times> effect list" where
  "processPDFWithGemini env clock pdfBuffer s3Bucket s3Key =
     (if \<not> modelInstance env then
        (Inl (new_Error env (js ''Gemini model is not initialized. Check API Key and SDK setup.'')),
         [ConsoleError ''Gemini model is not initialized. Check API Key and SDK setup.''])
      else
        (let tr0 = [ConsoleLog ''Starting Gemini multimodal processing for PDF''] in
         case gemini_try env clock pdfBuffer s3Bucket s3Key of
           (Inr extractedData, tr) \<Rightarrow> (Inr extractedData, tr0 @ tr)
         | (Inl err, tr) \<Rightarrow>
             (case gemini_catch env err s3Key of
                (thrown, tr') \<Rightarrow> (Inl thrown, tr0 @ tr @ tr'))))"

section \<open>Record Store: \<open>saveToDynamo\<close>\<close>

definition saveToDynamo :: "pipeline_env \<Rightarrow> jsval \<Rightarrow> (js_error + unit) \<times> effect list" where
  "saveToDynamo env data =
     (let tr = [ConsoleLog ''Saving to DynamoDB.'', DynamoPut data] in
      case db_put env data of
        None \<Rightarrow> (Inr (), tr @ [ConsoleLog ''Successfully saved item''])
      | Some err \<Rightarrow>
          (Inl err, tr @ [ConsoleError ''Error saving to DynamoDB:'', ConsoleError ''DynamoDB params:'']))"

section \<open>Pipeline Orchestrator: \<open>processEmail\<close>\<close>

text \<open>A record of the storage notification: \<open>record.s3.bucket.name\<close> and
  \<open>record.s3.object.key\<close>, the key as the notification delivers it (URL-encoded).\<close>

record s3_event_record =
  bucket_name :: jsstring
  object_key :: jsstring

record lambda_response =
  statusCode :: nat
  body :: jsstring

text \<open>Lines 40 to 43: the item is the decoded value's own properties with \<open>TicketId\<close>
  set to \<open>extractedData.invoiceId || `fallback-${key}-${Date.now()}`\<close>.\<close>

definition ticket_id :: "pipeline_env \<Rightarrow> nat \<Rightarrow> jsstring \<Rightarrow> jsval \<Rightarrow> jsval" where
  "ticket_id env i k extractedData =
     (case get_prop extractedData (js ''invoiceId'') of
        None \<Rightarrow> JStr (js ''fallback-'' @ k @ js ''-'' @ show_nat (Date_now env i 42))
      | Some invoiceId \<Rightarrow>
          if truthy invoiceId then invoiceId
          else JStr (js ''fallback-'' @ k @ js ''-'' @ show_nat (Date_now env i 42)))"

definition itemToSave :: "pipeline_env \<Rightarrow> nat \<Rightarrow> jsstring \<Rightarrow> jsval \<Rightarrow> jsval" where
  "itemToSave env i k extractedData =
     JObj (AList.update (js ''TicketId'') (ticket_id env i k extractedData)
             (own_props extractedData))"

text \<open>The \<open>try\<close> block of the task of one record, lines 19 to 50. Besides the outcome it
  gives \<open>s3ObjectData\<close>, which the \<open>catch\<close> block reads.\<close>

definition record_try :: "pipeline_env \<Rightarrow> nat \<Rightarrow> jsstring \<Rightarrow> jsstring
    \<Rightarrow> (js_error + jsval) \<times> s3_object option \<times> effect list" where
  "record_try env i bucket k =
     (let tr0 = [ConsoleLog ''Processing S3 object'', S3GetObject (Some bucket) k] in
      case s3_getObject env bucket k of
        Inl e \<Rightarrow> (Inl e, None, tr0)
      | Inr s3ObjectData \<Rightarrow>
          (case Body s3ObjectData of
             NotBuffer \<Rightarrow>
               (Inl (new_Error env (js ''S3 object body is not a Buffer.'')), Some s3ObjectData,
                tr0 @ [ConsoleError ''S3 object body is not a Buffer.''])
           | Buffer pdfBuffer \<Rightarrow>
               (let tr1 = tr0 @ [ConsoleLog ''PDF Buffer loaded''] in
                case processPDFWithGemini env (Date_now env i) pdfBuffer (Some bucket) (Some k) of
                  (Inl e, tr) \<Rightarrow> (Inl e, Some s3ObjectData, tr1 @ tr)
                | (Inr extractedData, tr) \<Rightarrow>
                    (let tr2 = tr1 @ tr @ [ConsoleLog ''Data extracted by Gemini multimodal processor:'']
                     in case saveToDynamo env (itemToSave env i k extractedData) of
                       (Inl e, tr') \<Rightarrow> (Inl e, Some s3ObjectData, tr2 @ tr')
                     | (Inr u, tr') \<Rightarrow>
                         (Inr (JObj [(js ''success'', JBool True), (js ''key'', JStr k),
                                     (js ''ticketId'', ticket_id env i k extractedData)]),
                          Some s3ObjectData,
                          tr2 @ tr' @ [ConsoleLog ''saved to DynamoDB successfully.''])))))"

text \<open>Lines 56 to 66: the Error Record.\<close>

definition error_record :: "pipeline_env \<Rightarrow> nat \<Rightarrow> jsstring \<Rightarrow> jsstring \<Rightarrow> js_error
    \<Rightarrow> s3_object option \<Rightarrow> jsstring \<Rightarrow> jsval" where
  "error_record env i bucket k err s3ObjectData errorTicketId =
     JObj
      [(js ''TicketId'', JStr errorTicketId),
       (js ''Status'', JStr (js ''Error-ProcessingFailed'')),
       (js ''S3Bucket'', JStr bucket),
       (js ''S3Key'', JStr k),
       (js ''ErrorDetails'', JStr (message err)),
       (js ''ErrorStack'',
          (case stack err of
             None \<Rightarrow> JNull
           | Some st \<Rightarrow> if st = [] then JNull else JStr (take 1000 st))),
       (js ''FileSize'',
          (case s3ObjectData of
             None \<Rightarrow> JNull
           | Some d \<Rightarrow>
               (case ContentLength d of
                  None \<Rightarrow> JNull
                | Some n \<Rightarrow> if n = 0 then JNull else JNum (of_nat n)))),
       (js ''FileContentType'',
          (case s3ObjectData of
             None \<Rightarrow> JNull
           | Some d \<Rightarrow>
               (case ContentType d of
                  None \<Rightarrow> JNull
                | Some ct \<Rightarrow> if ct = [] then JNull else JStr ct))),
       (js ''Timestamp'', JStr (toISOString env (Date_now env i 65)))]"

text \<open>The \<open>catch\<close> block of the task, lines 52 to 72.\<close>

definition record_catch :: "pipeline_env \<Rightarrow> nat \<Rightarrow> jsstring \<Rightarrow> jsstring \<Rightarrow> js_error
    \<Rightarrow> s3_object option \<Rightarrow> jsval \<times> effect list" where
  "record_catch env i bucket k err s3ObjectData =
     (let tr0 = [ConsoleError ''Failed to process S3 object''];
          errorTicketId = js ''error-'' @ k @ js ''-'' @ show_nat (Date_now env i 54);
          outcome = JObj [(js ''success'', JBool False), (js ''key'', JStr k),
                          (js ''error'', JStr (message err)),
                          (js ''ticketId'', JStr errorTicketId)]
      in case saveToDynamo env (error_record env i bucket k err s3ObjectData errorTicketId) of
           (Inr u, tr) \<Rightarrow> (outcome, tr0 @ tr @ [ConsoleLog ''Error record saved to DynamoDB''])
         | (Inl dbError, tr) \<Rightarrow>
             (outcome, tr0 @ tr @ [ConsoleError ''CRITICAL: Failed to save error record'']))"

text \<open>
  The task of one record (the callback of \<open>event.Records.map\<close>). Lines 14 to 16 run
  before the \<open>try\<close> block: when \<open>decodeURIComponent\<close> raises, the task's promise is
  rejected (\<open>Inl\<close>); otherwise the task resolves to its outcome object.
\<close>

definition process_record :: "pipeline_env \<Rightarrow> nat \<Rightarrow> s3_event_record
    \<Rightarrow> js_error + (jsval \<times> effect list)" where
  "process_record env i r =
     (case decodeURIComponent (plus_to_space (object_key r)) of
        None \<Rightarrow> Inl (throw_new env ''URIError'' (js ''URI malformed''))
      | Some k \<Rightarrow>
          (case record_try env i (bucket_name r) k of
             (Inr outcome, s3ObjectData, tr) \<Rightarrow> Inr (outcome, tr)
           | (Inl err, s3ObjectData, tr) \<Rightarrow>
               (case record_catch env i (bucket_name r) k err s3ObjectData of
                  (outcome, tr') \<Rightarrow> Inr (outcome, tr @ tr'))))"

text \<open>\<open>Promise.all\<close> on promises whose rejections are all raised while the list is built
  (the tasks below are rejected only by a throw before their first \<open>await\<close>): all the
  values, or the rejection that settles first, which then is the first one in the order
  of the list.\<close>

fun Promise_all :: "(js_error + 'a) list \<Rightarrow> js_error + 'a list" where
  "Promise_all [] = Inr []"
| "Promise_all (Inl e # ps) = Inl e"
| "Promise_all (Inr x # ps) = (case Promise_all ps of Inl e \<Rightarrow> Inl e | Inr xs \<Rightarrow> Inr (x # xs))"

text \<open>
  \<open>Promise.all\<close> on requests that settle later, in an order that the service decides:
  all the values, or the rejection that settles first. \<open>first n\<close> is the position of
  that rejection among the \<open>n\<close> rejected requests, in the order of the list; it is
  taken modulo \<open>n\<close>, so that every answer names one of them.
\<close>

definition rejections :: "(js_error + 'a) list \<Rightarrow> js_error list" where
  "rejections ps = concat (map (\<lambda>p. case p of Inl e \<Rightarrow> [e] | Inr x \<Rightarrow> []) ps)"

definition Promise_all_settled :: "(nat \<Rightarrow> nat) \<Rightarrow> (js_error + 'a) list \<Rightarrow> js_error + 'a list" where
  "Promise_all_settled first ps =
     (case Promise_all ps of
        Inr xs \<Rightarrow> Inr xs
      | Inl e \<Rightarrow> Inl (rejections ps ! (first (length (rejections ps)) mod length (rejections ps))))"

text \<open>
  What the task of one record has done when \<open>event.Records.map\<close> returns, that is up to
  its first \<open>await\<close> (line 23): nothing when the key cannot be decoded, otherwise the log
  of line 20 and the call of \<open>s3.getObject\<close>.
\<close>

definition started :: "s3_event_record \<Rightarrow> effect list" where
  "started r =
     (case decodeURIComponent (plus_to_space (object_key r)) of
        None \<Rightarrow> []
      | Some k \<Rightarrow> [ConsoleLog ''Processing S3 object'', S3GetObject (Some (bucket_name r)) k])"

text \<open>
  \<open>processEmail\<close> on \<open>event.Records\<close>. The tasks share no state, so the effects of a
  handled batch are listed task by task, in the order of the records. A task with an
  undecodable key is rejected while the list of tasks is built, so \<open>Promise.all\<close> rejects
  before any request of the other tasks has settled: the critical branch runs after what
  every task has \<open>started\<close>, and the tasks still in flight are not followed further.
\<close>

definition processEmail :: "pipeline_env \<Rightarrow> s3_event_record list \<Rightarrow> lambda_response \<times> effect list" where
  "processEmail env Records =
     (let tr0 = [ConsoleLog ''Received S3 event:''] in
      case Promise_all (map (\<lambda>(i, r). process_record env i r) (enumerate 0 Records)) of
        Inr outcomes \<Rightarrow>
          (let results = map fst outcomes;
               failedRecords = filter (\<lambda>r. \<not> truthy_opt (get_prop r (js ''success''))) results
           in (\<lparr>statusCode = 200,
                body = JSON_stringify env
                  (JObj [(js ''message'', JStr (js ''Processing completed.'')),
                         (js ''results'', JArr results [])])\<rparr>,
               tr0 @ concat (map snd outcomes)
               @ [ConsoleLog ''All records processing finished. Results:'']
               @ (if failedRecords \<noteq> [] then [ConsoleWarn ''Some records failed processing:''] else [])))
      | Inl error \<Rightarrow>
          (\<lparr>statusCode = 500,
            body = JSON_stringify env
              (JObj [(js ''message'', JStr (js ''Critical error during S3 event processing.'')),
                     (js ''error'', JStr (message error))])\<rparr>,
           tr0 @ concat (map started Records)
           @ [ConsoleError ''Critical error in processEmail handler:'']))"

section \<open>Query Service: the API handler\<close>

text \<open>
  The request event: \<open>httpMethod\<close>, \<open>path\<close>, \<open>pathParameters\<close> and
  \<open>queryStringParameters\<close>, each possibly absent. The environment gives the answers of
  the table: \<open>db_get\<close> a failure or \<open>data.Item\<close> (absent when the table has no such
  item), \<open>db_scan\<close> a failure or \<open>data.Items\<close> with \<open>data.Count\<close>.
\<close>

record api_event =
  httpMethod :: "jsstring option"
  path :: "jsstring option"
  pathParameters :: "(jsstring \<times> jsstring) list option"
  queryStringParameters :: "(jsstring \<times> jsstring) list option"

record api_env = runtime +
  db_get :: "jsstring \<Rightarrow> js_error + jsval option"
  db_scan :: "js_error + (jsval list \<times> nat)"

record api_response = lambda_response +
  headers :: "(jsstring \<times> jsstring) list"

definition createResponse :: "api_env \<Rightarrow> nat \<Rightarrow> jsval \<Rightarrow> api_response" where
  "createResponse env code b =
     \<lparr>statusCode = code,
      body = JSON_stringify env b,
      headers =
        [(js ''Content-Type'', js ''application/json''),
         (js ''Access-Control-Allow-Origin'', js ''*''),
         (js ''Access-Control-Allow-Methods'', js ''GET,OPTIONS''),
         (js ''Access-Control-Allow-Headers'',
          js ''Content-Type,X-Amz-Date,Authorization,X-Api-Key,X-Amz-Security-Token'')]\<rparr>"

text \<open>\<open>event.pathParameters && event.pathParameters.ticketId\<close>: the identifier when the
  whole expression is truthy.\<close>

definition ticketId_param :: "api_event \<Rightarrow> jsstring option" where
  "ticketId_param event =
     (case pathParameters event of
        None \<Rightarrow> None
      | Some ps \<Rightarrow>
          (case map_of ps (js ''ticketId'') of
             None \<Rightarrow> None
           | Some t \<Rightarrow> if t = [] then None else Some t))"

definition list_all_requested :: "api_event \<Rightarrow> bool" where
  "list_all_requested event \<longleftrightarrow>
     path event = Some (js ''/invoices'')
     \<or> (case queryStringParameters event of
           None \<Rightarrow> False
         | Some qs \<Rightarrow> map_of qs (js ''list'') = Some (js ''all''))"

definition method_text :: "jsstring option \<Rightarrow> jsstring" where
  "method_text m = (case m of None \<Rightarrow> js ''undefined'' | Some t \<Rightarrow> t)"

text \<open>The \<open>try\<close> block of the handler, lines 41 to 85.\<close>

definition api_try :: "api_env \<Rightarrow> api_event \<Rightarrow> (js_error + api_response) \<times> effect list" where
  "api_try env event =
     (case ticketId_param event of
        Some ticketId \<Rightarrow>
          (let tr = [ConsoleLog ''Fetching invoice by TicketId:'', DynamoGet ticketId] in
           case db_get env ticketId of
             Inl e \<Rightarrow> (Inl e, tr)
           | Inr item \<Rightarrow>
               if truthy_opt item then
                 (case item of
                    Some it \<Rightarrow> (Inr (createResponse env 200 it), tr)
                  | None \<Rightarrow>
                      (Inr (createResponse env 404
                         (JObj [(js ''error'',
                                 JStr (js ''Invoice with TicketId '' @ ticketId @ js '' not found.''))])),
                       tr))
               else
                 (Inr (createResponse env 404
                    (JObj [(js ''error'',
                            JStr (js ''Invoice with TicketId '' @ ticketId @ js '' not found.''))])),
                  tr))
      | None \<Rightarrow>
          if list_all_requested event then
            (let tr = [ConsoleLog ''Fetching all invoices (scan operation)'', DynamoScan] in
             case db_scan env of
               Inl e \<Rightarrow> (Inl e, tr)
             | Inr (Items, Count) \<Rightarrow>
                 (Inr (createResponse env 200
                    (JObj [(js ''items'', JArr Items []),
                           (js ''count'', JNum (of_nat Count)),
                           (js ''message'',
                            JStr (js ''Full scan executed. Implement pagination for production.''))])),
                  tr))
          else
            (Inr (createResponse env 400
               (JObj [(js ''error'',
                       JStr (js ''Invalid request path or parameters. Try /invoices/{ticketId} or /invoices?list=all''))])),
             []))"

definition api_handler :: "api_env \<Rightarrow> api_event \<Rightarrow> api_response \<times> effect list" where
  "api_handler env event =
     (let tr0 = [ConsoleLog ''API Gateway event received:''] in
      if httpMethod event = Some (js ''OPTIONS'') then
        (createResponse env 200 (JObj [(js ''message'', JStr (js ''CORS preflight successful''))]), tr0)
      else if httpMethod event \<noteq> Some (js ''GET'') then
        (createResponse env 405
           (JObj [(js ''error'', JStr (js ''Unsupported method: '' @ method_text (httpMethod event)))]),
         tr0)
      else
        (case api_try env event of
           (Inr response, tr) \<Rightarrow> (response, tr0 @ tr)
         | (Inl error, tr) \<Rightarrow>
             (createResponse env 500
                (JObj [(js ''error'', JStr (js ''Internal server error.'')),
                       (js ''details'', JStr (message error))]),
              tr0 @ tr @ [ConsoleError ''Error processing API request:''])))"

section \<open>Mail Ingestor: filename sanitization\<close>

text \<open>
  \<^verbatim>\<open>filename.replace(/[^a-zA-Z0-9_.-]/g, '_')\<close>: every code unit outside the class
  \<open>[a-zA-Z0-9_.-]\<close> becomes an underscore (code unit 95); the others are kept.
\<close>

definition safe_unit :: "nat \<Rightarrow> bool" where
  "safe_unit c \<longleftrightarrow>
     (97 \<le> c \<and> c \<le> 122) \<or> (65 \<le> c \<and> c \<le> 90) \<or> (48 \<le> c \<and> c \<le> 57)
     \<or> c = 95 \<or> c = 46 \<or> c = 45"

definition sanitize :: "jsstring \<Rightarrow> jsstring" where
  "sanitize filename = map (\<lambda>c. if safe_unit c then c else 95) filename"

text \<open>\<open>String.prototype.toLowerCase\<close> on the letters \<open>A\<close> to \<open>Z\<close>. Beyond ASCII the
  built-in also maps other cased letters; none of them becomes one of the code units of
  \<open>.pdf\<close>, so the test \<open>toLowerCase().endsWith('.pdf')\<close> is decided by this part.\<close>

definition toLowerCase :: "jsstring \<Rightarrow> jsstring" where
  "toLowerCase s = map (\<lambda>c. if 65 \<le> c \<and> c \<le> 90 then c + 32 else c) s"

section \<open>Mail Ingestor: the handler\<close>

text \<open>The first record of the event, as far as the handler probes it; every part may be
  absent.\<close>

datatype ses_mail = SesMail "jsstring option"

datatype ses_part = SesPart "ses_mail option"

datatype s3_bucket_part = BucketPart "jsstring option"

datatype s3_object_part = ObjectPart "jsstring option"

datatype s3_part = S3Part "s3_bucket_part option" "s3_object_part option"

record ses_event_record =
  ses :: "ses_part option"
  s3 :: "s3_part option"

text \<open>An attachment and the parsed message, as \<open>simpleParser\<close> gives them: \<open>from\<close> and
  \<open>to\<close> are present only when the message has the header.\<close>

record attachment =
  contentType :: jsstring
  filename :: "jsstring option"
  content_bytes :: "nat list"

record parsed_email =
  from_header :: "jsstring option"
  to_header :: "jsstring option"
  attachments :: "attachment list"

text \<open>
  The environment of the ingestor: the environment variable, the storage read and write
  (\<open>putObject\<close> giving the error when the write is rejected), \<open>Buffer.toString('utf-8')\<close>,
  the mail parser, the clock read on line 84 for the \<open>i\<close>-th attachment, and which of
  the rejected writes settles first.
\<close>

record ingest_env = runtime +
  env_ATTACHMENT_BUCKET_NAME :: "jsstring option"
  getObject :: "jsstring option \<Rightarrow> jsstring \<Rightarrow> js_error + s3_object"
  putObject :: "jsstring \<Rightarrow> jsstring \<Rightarrow> nat list \<Rightarrow> jsstring \<Rightarrow> js_error option"
  toString_utf8 :: "nat list \<Rightarrow> jsstring"
  simpleParser :: "jsstring \<Rightarrow> js_error + parsed_email"
  attachment_clock :: "nat \<Rightarrow> nat"
  first_rejected :: "nat \<Rightarrow> nat"

definition ATTACHMENT_BUCKET_NAME :: "ingest_env \<Rightarrow> jsstring" where
  "ATTACHMENT_BUCKET_NAME env =
     (case env_ATTACHMENT_BUCKET_NAME env of
        None \<Rightarrow> js ''email-attachments-bucket-dev-1749037511789''
      | Some b \<Rightarrow> if b = [] then js ''email-attachments-bucket-dev-1749037511789'' else b)"

text \<open>Line 23: the message id, when none of the four tests rejects the record.\<close>

definition record_messageId :: "ses_event_record list \<Rightarrow> jsstring option" where
  "record_messageId Records =
     (case Records of
        [] \<Rightarrow> None
      | r # rs \<Rightarrow>
          (case ses r of
             None \<Rightarrow> None
           | Some (SesPart None) \<Rightarrow> None
           | Some (SesPart (Some (SesMail None))) \<Rightarrow> None
           | Some (SesPart (Some (SesMail (Some m)))) \<Rightarrow> if m = [] then None else Some m))"

text \<open>Line 57: the bucket and object parts of the record, when all three are there.\<close>

definition record_source :: "ses_event_record list \<Rightarrow> (jsstring option \<times> jsstring option) option" where
  "record_source Records =
     (case Records of
        [] \<Rightarrow> None
      | r # rs \<Rightarrow>
          (case s3 r of
             None \<Rightarrow> None
           | Some (S3Part None ob) \<Rightarrow> None
           | Some (S3Part (Some b) None) \<Rightarrow> None
           | Some (S3Part (Some (BucketPart nm)) (Some (ObjectPart k))) \<Rightarrow> Some (nm, k)))"

text \<open>Line 83: the attachment is processed as a PDF.\<close>

definition is_pdf :: "attachment \<Rightarrow> bool" where
  "is_pdf a \<longleftrightarrow>
     contentType a = js ''application/pdf''
     \<or> (case filename a of
           None \<Rightarrow> False
         | Some f \<Rightarrow> f \<noteq> [] \<and> suffix (js ''.pdf'') (toLowerCase f))"

text \<open>Lines 84 to 87: the filename, its sanitized form and the storage key.\<close>

definition attachment_filename :: "ingest_env \<Rightarrow> jsstring \<Rightarrow> nat \<Rightarrow> attachment \<Rightarrow> jsstring" where
  "attachment_filename env messageId i a =
     (case filename a of
        None \<Rightarrow> js ''attachment-'' @ messageId @ js ''-'' @ show_nat (attachment_clock env i) @ js ''.pdf''
      | Some f \<Rightarrow>
          if f = [] then
            js ''attachment-'' @ messageId @ js ''-'' @ show_nat (attachment_clock env i) @ js ''.pdf''
          else f)"

definition attachmentKey :: "ingest_env \<Rightarrow> jsstring \<Rightarrow> nat \<Rightarrow> attachment \<Rightarrow> jsstring" where
  "attachmentKey env messageId i a =
     js ''attachments/'' @ messageId @ js ''/'' @ sanitize (attachment_filename env messageId i a)"

text \<open>
  The loop of lines 81 to 102 from the \<open>i\<close>-th attachment on. Each retained attachment
  starts one \<open>putObject\<close> request; the loop gives the outcomes of the requests it started
  (\<open>uploadPromises\<close>) and its effects.
\<close>

fun upload_loop :: "ingest_env \<Rightarrow> jsstring \<Rightarrow> nat \<Rightarrow> attachment list
    \<Rightarrow> (js_error + unit) list \<times> effect list" where
  "upload_loop env messageId i [] = ([], [])"
| "upload_loop env messageId i (a # rest) =
     (case upload_loop env messageId (Suc i) rest of
        (uploadPromises, tr) \<Rightarrow>
          if is_pdf a then
            ((case putObject env (ATTACHMENT_BUCKET_NAME env) (attachmentKey env messageId i a)
                     (content_bytes a) (contentType a) of
                None \<Rightarrow> Inr ()
              | Some e \<Rightarrow> Inl e) # uploadPromises,
             [ConsoleLog ''Uploading PDF attachment:'',
              S3PutObject (ATTACHMENT_BUCKET_NAME env) (attachmentKey env messageId i a)
                (content_bytes a) (contentType a)] @ tr)
          else (uploadPromises, ConsoleLog ''Skipping non-PDF attachment:'' # tr))"

text \<open>The \<open>try\<close> block of the handler, lines 69 to 111.\<close>

definition ingest_try :: "ingest_env \<Rightarrow> jsstring \<Rightarrow> jsstring option \<Rightarrow> jsstring
    \<Rightarrow> (js_error + lambda_response) \<times> effect list" where
  "ingest_try env messageId sourceBucket sourceKey =
     (let tr0 = [S3GetObject sourceBucket sourceKey] in
      case getObject env sourceBucket sourceKey of
        Inl e \<Rightarrow> (Inl e, tr0)
      | Inr s3Object \<Rightarrow>
          (case Body s3Object of
             NotBuffer \<Rightarrow>
               (Inl (throw_new env ''TypeError''
                  (js ''Cannot read properties of undefined (reading '' @ [39] @ js ''toString'' @ [39] @ js '')'')),
                tr0)
           | Buffer bytes \<Rightarrow>
               (case simpleParser env (toString_utf8 env bytes) of
                  Inl e \<Rightarrow> (Inl e, tr0)
                | Inr parsedEmail \<Rightarrow>
                    (let tr1 = tr0 @ [ConsoleLog ''Email Subject:''] in
                     if from_header parsedEmail = None then
                       (Inl (throw_new env ''TypeError''
                          (js ''Cannot read properties of undefined (reading '' @ [39] @ js ''text'' @ [39] @ js '')'')),
                        tr1)
                     else if to_header parsedEmail = None then
                       (Inl (throw_new env ''TypeError''
                          (js ''Cannot read properties of undefined (reading '' @ [39] @ js ''text'' @ [39] @ js '')'')),
                        tr1 @ [ConsoleLog ''From:''])
                     else
                       (let tr2 = tr1 @ [ConsoleLog ''From:'', ConsoleLog ''To:'', ConsoleLog ''Found attachment(s).'']
                        in case upload_loop env messageId 0 (attachments parsedEmail) of
                          (uploadPromises, tr3) \<Rightarrow>
                            (let ok = \<lparr>statusCode = 200,
                                       body = js ''Successfully processed email '' @ messageId @ js ''. ''
                                              @ show_nat (length uploadPromises) @ js '' PDF(s) uploaded.''\<rparr>
                             in if uploadPromises \<noteq> [] then
                                  (case Promise_all_settled (first_rejected env) uploadPromises of
                                     Inl e \<Rightarrow> (Inl e, tr2 @ tr3)
                                   | Inr uploaded \<Rightarrow>
                                       (Inr ok, tr2 @ tr3 @ [ConsoleLog ''PDF attachment(s) uploaded successfully'']))
                                else (Inr ok, tr2 @ tr3 @ [ConsoleLog ''No PDF attachments found or uploaded.''])))))))"

text \<open>
  The handler on \<open>event.Records\<close>. Lines 63 and 64 run before the \<open>try\<close> block: reading
  \<open>replace\<close> of an absent key and a malformed key both make the handler itself raise
  (\<open>Inl\<close>).
\<close>

definition ingest_handler :: "ingest_env \<Rightarrow> ses_event_record list
    \<Rightarrow> js_error + (lambda_response \<times> effect list)" where
  "ingest_handler env Records =
     (let tr0 = [ConsoleLog ''SES Email Processor event received:''] in
      if ATTACHMENT_BUCKET_NAME env = [] then
        Inr (\<lparr>statusCode = 500, body = js ''Server configuration error: Attachment bucket not set.''\<rparr>,
             tr0 @ [ConsoleError ''Attachment bucket name is not configured. Exiting.''])
      else
        (case record_messageId Records of
           None \<Rightarrow>
             Inr (\<lparr>statusCode = 400, body = js ''Invalid SES event.''\<rparr>,
                  tr0 @ [ConsoleError ''Invalid SES event structure:''])
         | Some messageId \<Rightarrow>
             (let tr1 = tr0 @ [ConsoleLog ''Processing email with Message ID:''] in
              case record_source Records of
                None \<Rightarrow>
                  Inr (\<lparr>statusCode = 400,
                        body = js ''Lambda not triggered by expected S3 event for raw email.''\<rparr>,
                       tr1 @ [ConsoleError ''This Lambda expects to be triggered by an S3 event containing the raw email from SES.'',
                              ConsoleLog ''If SES triggers this Lambda directly, the approach to get raw email content needs to change.''])
              | Some (sourceBucket, None) \<Rightarrow>
                  Inl (throw_new env ''TypeError''
                         (js ''Cannot read properties of undefined (reading '' @ [39] @ js ''replace'' @ [39] @ js '')''))
              | Some (sourceBucket, Some rawKey) \<Rightarrow>
                  (case decodeURIComponent (plus_to_space rawKey) of
                     None \<Rightarrow> Inl (throw_new env ''URIError'' (js ''URI malformed''))
                   | Some sourceKey \<Rightarrow>
                       (case ingest_try env messageId sourceBucket sourceKey of
                          (Inr response, tr) \<Rightarrow>
                            Inr (response, tr1 @ [ConsoleLog ''Fetching raw email from''] @ tr)
                        | (Inl error, tr) \<Rightarrow>
                            Inr (\<lparr>statusCode = 500,
                                  body = js ''Error processing email: '' @ message error\<rparr>,
                                 tr1 @ [ConsoleLog ''Fetching raw email from''] @ tr
                                 @ [ConsoleError ''Error processing email'']))))))"

section \<open>Reading the effects\<close>

text \<open>The items of the table writes, the storage reads and writes, and the storage
  writes that the storage accepted, in the order of the list of effects.\<close>

fun dynamo_puts :: "effect list \<Rightarrow> jsval list" where
  "dynamo_puts [] = []"
| "dynamo_puts (DynamoPut item # tr) = item # dynamo_puts tr"
| "dynamo_puts (e # tr) = dynamo_puts tr"

fun storage_calls :: "effect list \<Rightarrow> effect list" where
  "storage_calls [] = []"
| "storage_calls (S3GetObject b k # tr) = S3GetObject b k # storage_calls tr"
| "storage_calls (S3PutObject b k c t # tr) = S3PutObject b k c t # storage_calls tr"
| "storage_calls (e # tr) = storage_calls tr"

fun put_keys :: "effect list \<Rightarrow> jsstring list" where
  "put_keys [] = []"
| "put_keys (S3PutObject b k c t # tr) = k # put_keys tr"
| "put_keys (e # tr) = put_keys tr"

fun stored_keys :: "ingest_env \<Rightarrow> effect list \<Rightarrow> jsstring list" where
  "stored_keys env [] = []"
| "stored_keys env (S3PutObject b k c t # tr) =
     (if putObject env b k c t = None then k # stored_keys env tr else stored_keys env tr)"
| "stored_keys env (e # tr) = stored_keys env tr"

fun skipped :: "effect list \<Rightarrow> nat" where
  "skipped [] = 0"
| "skipped (ConsoleLog t # tr) =
     (if t = ''Skipping non-PDF attachment:'' then Suc (skipped tr) else skipped tr)"
| "skipped (e # tr) = skipped tr"

text \<open>The attachments the loop retains, with their positions in the message, and the
  acceptance of the storage write of one of them.\<close>

definition retained :: "attachment list \<Rightarrow> (nat \<times> attachment) list" where
  "retained atts = filter (\<lambda>(i, a). is_pdf a) (enumerate 0 atts)"

definition write_accepted :: "ingest_env \<Rightarrow> jsstring \<Rightarrow> nat \<times> attachment \<Rightarrow> bool" where
  "write_accepted env messageId =
     (\<lambda>(i, a). putObject env (ATTACHMENT_BUCKET_NAME env) (attachmentKey env messageId i a)
                 (content_bytes a) (contentType a) = None)"

text \<open>A property name with a code unit that is not a decimal digit: it is not an array
  index.\<close>

definition named :: "jsstring \<Rightarrow> bool" where
  "named name \<longleftrightarrow> list_ex (\<lambda>c. c < 48 \<or> 57 < c) name"

text \<open>The fetch, the extraction and the table write of a record all succeed.\<close>

definition item_succeeds :: "pipeline_env \<Rightarrow> nat \<Rightarrow> s3_event_record \<Rightarrow> bool" where
  "item_succeeds env i r \<longleftrightarrow>
     (\<exists>k obj pdfBuffer extractedData.
         decodeURIComponent (plus_to_space (object_key r)) = Some k
       \<and> s3_getObject env (bucket_name r) k = Inr obj \<and> Body obj = Buffer pdfBuffer
       \<and> fst (processPDFWithGemini env (Date_now env i) pdfBuffer (Some (bucket_name r)) (Some k))
            = Inr extractedData
       \<and> db_put env (itemToSave env i k extractedData) = None)"

section \<open>Example environments\<close>

text \<open>
  Concrete environments on which the theorems below are instantiated. The serializer
  prints the values of the examples (strings without characters to escape, natural
  numbers) as \<open>JSON.stringify\<close> does.
\<close>

fun join_with :: "jsstring \<Rightarrow> jsstring list \<Rightarrow> jsstring" where
  "join_with sep [] = []"
| "join_with sep [x] = x"
| "join_with sep (x # y # rest) = x @ sep @ join_with sep (y # rest)"

fun demo_stringify :: "jsval \<Rightarrow> jsstring" where
  "demo_stringify JNull = js ''null''"
| "demo_stringify (JBool b) = (if b then js ''true'' else js ''false'')"
| "demo_stringify (JNum r) = show_nat (nat \<lfloor>r\<rfloor>)"
| "demo_stringify (JStr s) = [34] @ s @ [34]"
| "demo_stringify (JArr xs ps) = js ''['' @ join_with (js '','') (map demo_stringify xs) @ js '']''"
| "demo_stringify (JObj fs) =
     js ''{''
     @ join_with (js '','') (map (\<lambda>(k, v). [34] @ k @ [34] @ js '':'' @ demo_stringify v) fs)
     @ js ''}''"

definition payload_with_id :: jsstring where
  \<open>payload_with_id = js ''{"invoiceId":"INV-42","grandTotal":100}''\<close>

definition payload_without_id :: jsstring where
  \<open>payload_without_id = js ''{"grandTotal":7}''\<close>

definition demo_parse :: "jsstring \<Rightarrow> js_error + jsval" where
  "demo_parse s =
     (if s = payload_with_id
      then Inr (JObj [(js ''invoiceId'', JStr (js ''INV-42'')), (js ''grandTotal'', JNum 100)])
      else if s = payload_without_id then Inr (JObj [(js ''grandTotal'', JNum 7)])
      else Inl (JsError (js ''SyntaxError'') (js ''Unexpected token'') None))"

definition demo_stack :: "jsstring \<Rightarrow> jsstring \<Rightarrow> jsstring" where
  "demo_stack nm msg = nm @ js '': '' @ msg @ js '' at handler''"

definition demo_response :: "jsstring \<Rightarrow> gemini_response option" where
  "demo_response payload =
     Some \<lparr>candidates = Some [Candidate (Some (Content (Some [JStr payload])))],
           promptFeedback = None, text_call = Inr payload\<rparr>"

definition demo_declined :: "gemini_response option" where
  "demo_declined =
     Some \<lparr>candidates = None,
           promptFeedback = Some (PromptFeedback (Some (js ''SAFETY''))),
           text_call = Inl (JsError (js ''Error'') (js ''Text not available.'') None)\<rparr>"

text \<open>
  The store holds three PDFs: one whose extraction carries the \<open>invoiceId\<close> \<open>INV-42\<close>,
  one whose extraction has no \<open>invoiceId\<close>, and one that the backend declines with the
  block reason \<open>SAFETY\<close>; every other key is missing. Every table write succeeds.
\<close>

definition demo_env :: pipeline_env where
  "demo_env =
     \<lparr>captureStackTrace = demo_stack,
      toISOString = (\<lambda>t. js ''2023-11-14T22:13:20.000Z''),
      JSON_parse = demo_parse,
      JSON_stringify = demo_stringify,
      GEMINI_API_KEY = js ''configured'',
      generateContent = (\<lambda>pdf.
        if pdf = [37, 80, 68, 70, 65] then Inr (demo_response payload_with_id)
        else if pdf = [37, 80, 68, 70, 66] then Inr (demo_response payload_without_id)
        else Inr demo_declined),
      s3_getObject = (\<lambda>b k.
        if k = js ''a b.pdf''
        then Inr \<lparr>Body = Buffer [37, 80, 68, 70, 65], ContentLength = Some 5,
                  ContentType = Some (js ''application/pdf'')\<rparr>
        else if k = js ''noid.pdf''
        then Inr \<lparr>Body = Buffer [37, 80, 68, 70, 66], ContentLength = Some 5, ContentType = None\<rparr>
        else if k = js ''blocked.pdf''
        then Inr \<lparr>Body = Buffer [37, 80, 68, 70, 67], ContentLength = Some 5, ContentType = None\<rparr>
        else Inl (JsError (js ''NoSuchKey'') (js ''The specified key does not exist.'') None)),
      db_put = (\<lambda>item. None),
      Date_now = (\<lambda>i l. 1700000000000 + i)\<rparr>"


text \<open>The table of the Query Service holds one record, \<open>INV-42\<close>; the lookup of
  \<open>broken\<close> fails.\<close>

definition demo_item :: jsval where
  "demo_item = JObj [(js ''TicketId'', JStr (js ''INV-42'')), (js ''grandTotal'', JNum 100)]"

definition demo_api_env :: api_env where
  "demo_api_env =
     \<lparr>captureStackTrace = demo_stack,
      toISOString = (\<lambda>t. js ''2023-11-14T22:13:20.000Z''),
      JSON_parse = demo_parse,
      JSON_stringify = demo_stringify,
      db_get = (\<lambda>t.
        if t = js ''INV-42'' then Inr (Some demo_item)
        else if t = js ''broken'' then Inl (JsError (js ''Error'') (js ''table unavailable'') None)
        else Inr None),
      db_scan = Inr ([demo_item], 1)\<rparr>"

definition demo_lookup :: "string \<Rightarrow> api_event" where
  "demo_lookup t =
     \<lparr>httpMethod = Some (js ''GET''), path = Some (js ''/invoices/'' @ js t),
      pathParameters = Some [(js ''ticketId'', js t)], queryStringParameters = None\<rparr>"

text \<open>
  The raw message \<open>M1.eml\<close> has four attachments: \<open>invoice.pdf\<close> (declared PDF),
  \<open>logo.png\<close>, an unnamed PDF, and \<open>Scan 1.PDF\<close> declared as a byte stream.
  The raw message \<open>M2.eml\<close> has the one attachment \<open>full.pdf\<close>, whose storage write is
  rejected; the raw message \<open>M3.eml\<close> has one PDF and no \<open>To\<close> header.
\<close>

definition demo_mail :: "jsstring \<Rightarrow> js_error + parsed_email" where
  "demo_mail raw =
     (if raw = [77, 49] then
        Inr \<lparr>from_header = Some (js ''billing@vendor.example''),
             to_header = Some (js ''invoices@customer.example''),
             attachments =
               [\<lparr>contentType = js ''application/pdf'', filename = Some (js ''invoice.pdf''),
                  content_bytes = [37, 80, 68, 70]\<rparr>,
                \<lparr>contentType = js ''image/png'', filename = Some (js ''logo.png''),
                  content_bytes = [137, 80, 78, 71]\<rparr>,
                \<lparr>contentType = js ''application/pdf'', filename = None,
                  content_bytes = [37, 80, 68, 70, 45]\<rparr>,
                \<lparr>contentType = js ''application/octet-stream'', filename = Some (js ''Scan 1.PDF''),
                  content_bytes = [37, 80, 68, 70, 46]\<rparr>]\<rparr>
      else if raw = [77, 50] then
        Inr \<lparr>from_header = Some (js ''billing@vendor.example''),
             to_header = Some (js ''invoices@customer.example''),
             attachments =
               [\<lparr>contentType = js ''application/pdf'', filename = Some (js ''full.pdf''),
                  content_bytes = [37, 80, 68, 70]\<rparr>]\<rparr>
      else if raw = [77, 51] then
        Inr \<lparr>from_header = Some (js ''billing@vendor.example''),
             to_header = None,
             attachments =
               [\<lparr>contentType = js ''application/pdf'', filename = Some (js ''invoice.pdf''),
                  content_bytes = [37, 80, 68, 70]\<rparr>]\<rparr>
      else Inl (JsError (js ''Error'') (js ''unparsable message'') None))"

definition demo_ingest_env :: ingest_env where
  "demo_ingest_env =
     \<lparr>captureStackTrace = demo_stack,
      toISOString = (\<lambda>t. js ''2023-11-14T22:13:20.000Z''),
      JSON_parse = demo_parse,
      JSON_stringify = demo_stringify,
      env_ATTACHMENT_BUCKET_NAME = Some (js ''attachments-bucket''),
      getObject = (\<lambda>b k.
        if b = Some (js ''raw-mail'') \<and> k = js ''M1.eml''
        then Inr \<lparr>Body = Buffer [77, 49], ContentLength = Some 2, ContentType = None\<rparr>
        else if b = Some (js ''raw-mail'') \<and> k = js ''M2.eml''
        then Inr \<lparr>Body = Buffer [77, 50], ContentLength = Some 2, ContentType = None\<rparr>
        else if b = Some (js ''raw-mail'') \<and> k = js ''M3.eml''
        then Inr \<lparr>Body = Buffer [77, 51], ContentLength = Some 2, ContentType = None\<rparr>
        else Inl (JsError (js ''NoSuchKey'') (js ''The specified key does not exist.'') None)),
      putObject = (\<lambda>b k c t.
        if k = js ''attachments/M2/full.pdf''
        then Some (JsError (js ''SlowDown'') (js ''Please reduce your request rate.'') None)
        else None),
      toString_utf8 = (\<lambda>bytes. bytes),
      simpleParser = demo_mail,
      attachment_clock = (\<lambda>i. 1700000000000 + i),
      first_rejected = (\<lambda>n. 0)\<rparr>"

definition demo_ses_record :: "string \<Rightarrow> string \<Rightarrow> ses_event_record" where
  "demo_ses_record mid k =
     \<lparr>ses = Some (SesPart (Some (SesMail (Some (js mid))))),
      s3 = Some (S3Part (Some (BucketPart (Some (js ''raw-mail'')))) (Some (ObjectPart (Some (js k)))))\<rparr>"

section \<open>Properties\<close>

lemma js_eq_iff [simp]: "js a = js b \<longleftrightarrow> a = b"
  by (simp add: js_def inj_map_eq_map[OF inj_of_char])

lemma js_Nil [simp]: "js s = [] \<longleftrightarrow> s = []"
  by (simp add: js_def)

lemma js_append: "js (a @ b) = js a @ js b"
  by (simp add: js_def)

lemma gemini_catch_eq:
  "gemini_catch env err s3Key =
     (throw_new env ''ReferenceError'' (js ''result is not defined''),
      [ConsoleError ''Error during Gemini API call or processing:''])"
  by (simp add: gemini_catch_def result_in_catch_def Let_def)

lemma show_nat_digits: "c \<in> set (show_nat n) \<Longrightarrow> 48 \<le> c \<and> c \<le> 57"
proof (induction n arbitrary: c rule: show_nat.induct)
  case (1 n)
  show ?case
  proof (cases "n < 10")
    case True
    with "1.prems" show ?thesis by (simp add: show_nat.simps [of n])
  next
    case False
    with "1.prems" have "c \<in> set (show_nat (n div 10)) \<or> c = 48 + n mod 10"
      by (auto simp add: show_nat.simps [of n])
    then show ?thesis
    proof
      assume "c \<in> set (show_nat (n div 10))"
      with False "1.IH" show ?thesis by blast
    next
      assume "c = 48 + n mod 10"
      then show ?thesis by simp
    qed
  qed
qed


lemma index_entries_named:
  assumes "named name"
  shows "map_of (zip (map show_nat [0..<length xs]) xs) name = None"
proof -
  have "name \<notin> set (map show_nat [0..<length xs])"
  proof
    assume "name \<in> set (map show_nat [0..<length xs])"
    then obtain i where "name = show_nat i" by auto
    with assms show False
      by (auto simp add: named_def list_ex_iff dest: show_nat_digits)
  qed
  then have "name \<notin> fst ` set (zip (map show_nat [0..<length xs]) xs)"
    by (auto dest: set_zip_leftD)
  then show ?thesis by (simp add: map_of_eq_None_iff)
qed

lemma get_prop_assign:
  assumes "assign_prop rt d name v = Inr d'" and "named name"
  shows "get_prop d' name' = (if name' = name then Some v else get_prop d name')"
proof (cases d)
  case (JObj fs)
  with assms show ?thesis by (auto simp add: get_prop_def update_conv')
next
  case (JArr xs ps)
  have idx: "map_of (zip (map show_nat [0..<length xs]) xs) name = None"
    using assms(2) by (rule index_entries_named)
  from JArr assms(1) have d': "d' = JArr xs (AList.update name v ps)" by simp
  show ?thesis
  proof (cases "map_of (zip (map show_nat [0..<length xs]) xs) name'")
    case None
    then show ?thesis
      by (simp add: d' JArr get_prop_def map_add_def update_conv' del: map_of_zip_is_None)
  next
    case (Some y)
    have "name' \<noteq> name"
    proof
      assume "name' = name"
      with Some idx show False by (simp only: option.distinct)
    qed
    from this Some show ?thesis
      by (simp add: d' JArr get_prop_def map_add_def del: map_of_zip_is_None)
  qed
qed (use assms in auto)

lemma named_js: "named (js ''S3Bucket'')" "named (js ''S3Key'')" "named (js ''processingEngine'')"
  "named (js ''extractionTimestamp'')"
  by (simp_all add: named_def js_def)

lemma get_prop_augment:
  assumes "augment env now decoded s3Bucket s3Key = Inr extractedData"
  shows "get_prop extractedData name =
     (if name = js ''extractionTimestamp'' then Some (JStr (toISOString env now))
      else if name = js ''processingEngine'' then Some (JStr (js ''Gemini-1.5-Flash-Latest''))
      else if name = js ''S3Key'' then Some (opt_str s3Key)
      else if name = js ''S3Bucket'' then Some (opt_str s3Bucket)
      else get_prop decoded name)"
  using assms
  by (auto simp add: augment_def get_prop_assign named_js split: sum.splits)

lemma augment_total:
  "(\<exists>fs. decoded = JObj fs) \<or> (\<exists>xs ps. decoded = JArr xs ps) \<Longrightarrow>
     \<exists>v. augment env now decoded s3Bucket s3Key = Inr v"
  by (auto simp add: augment_def)

lemma gemini_try_Inr:
  assumes "fst (gemini_try env clock pdfBuffer s3Bucket s3Key) = Inr extractedData"
  shows "\<exists>response jsonString decoded.
           generateContent env pdfBuffer = Inr response \<and> \<not> invalid_structure response
         \<and> response_text env response = Inr jsonString
         \<and> JSON_parse env jsonString = Inr decoded
         \<and> augment env (clock 175) decoded s3Bucket s3Key = Inr extractedData"
  using assms
  by (auto simp add: gemini_try_def Let_def split: sum.splits if_splits)

lemma processPDF_Inr:
  assumes "fst (processPDFWithGemini env clock pdfBuffer s3Bucket s3Key) = Inr extractedData"
  shows "fst (gemini_try env clock pdfBuffer s3Bucket s3Key) = Inr extractedData"
  using assms
  by (auto simp add: processPDFWithGemini_def Let_def gemini_catch_eq split: if_splits prod.splits sum.splits)

lemma processPDF_Inl:
  assumes "fst (processPDFWithGemini env clock pdfBuffer s3Bucket s3Key) = Inl e"
  shows "(\<not> modelInstance env \<and>
            e = new_Error env (js ''Gemini model is not initialized. Check API Key and SDK setup.''))
       \<or> (modelInstance env \<and> e = throw_new env ''ReferenceError'' (js ''result is not defined''))"
  using assms
  by (auto simp add: processPDFWithGemini_def Let_def gemini_catch_eq split: if_splits prod.splits sum.splits)

lemma gemini_try_warn:
  assumes "generateContent env pdfBuffer = Inr response" and "\<not> invalid_structure response"
    and "response_text env response = Inr jsonString"
    and "JSON_parse env jsonString = Inr decoded"
    and "augment env (clock 175) decoded s3Bucket s3Key = Inr extractedData"
  shows "gemini_try env clock pdfBuffer s3Bucket s3Key =
     (Inr extractedData,
      [ConsoleLog ''Sending request to Gemini API'', GeminiGenerate pdfBuffer,
       ConsoleLog ''Raw JSON string from Gemini:'', ConsoleLog ''Successfully parsed data from Gemini.'']
      @ (if truthy_opt (get_prop decoded (js ''invoiceId'')) then []
         else [ConsoleWarn ''Invoice ID not extracted by Gemini'']))"
  using assms get_prop_augment [OF assms(5), of "js ''invoiceId''"]
  by (simp add: gemini_try_def Let_def)

text \<open>
  Claim C8. When \<open>processPDFWithGemini\<close> returns a value, that value is the decoded
  response with \<open>S3Bucket\<close>, \<open>S3Key\<close>, \<open>processingEngine\<close> and
  \<open>extractionTimestamp\<close> set and every other property, \<open>TicketId\<close> among them, as
  decoded. When the decoded object has no truthy \<open>invoiceId\<close>, the function still
  returns the augmented object, and the only trace of the missing identifier is one
  console warning.
\<close>

theorem processPDFWithGemini_frame:
  "(fst (processPDFWithGemini env clock pdfBuffer s3Bucket s3Key) = Inr extractedData \<longrightarrow>
      (\<exists>response jsonString decoded.
          generateContent env pdfBuffer = Inr response
        \<and> response_text env response = Inr jsonString
        \<and> JSON_parse env jsonString = Inr decoded
        \<and> get_prop extractedData (js ''S3Bucket'') = Some (opt_str s3Bucket)
        \<and> get_prop extractedData (js ''S3Key'') = Some (opt_str s3Key)
        \<and> get_prop extractedData (js ''processingEngine'') = Some (JStr (js ''Gemini-1.5-Flash-Latest''))
        \<and> get_prop extractedData (js ''extractionTimestamp'') = Some (JStr (toISOString env (clock 175)))
        \<and> (\<forall>name. name \<notin> {js ''S3Bucket'', js ''S3Key'', js ''processingEngine'', js ''extractionTimestamp''}
               \<longrightarrow> get_prop extractedData name = get_prop decoded name)
        \<and> get_prop extractedData (js ''TicketId'') = get_prop decoded (js ''TicketId'')))
   \<and> (modelInstance env \<and> generateContent env pdfBuffer = Inr response
        \<and> \<not> invalid_structure response \<and> response_text env response = Inr jsonString
        \<and> JSON_parse env jsonString = Inr (JObj fs) \<and> \<not> truthy_opt (map_of fs (js ''invoiceId'')) \<longrightarrow>
      (\<exists>v. processPDFWithGemini env clock pdfBuffer s3Bucket s3Key =
             (Inr v,
              [ConsoleLog ''Starting Gemini multimodal processing for PDF'',
               ConsoleLog ''Sending request to Gemini API'', GeminiGenerate pdfBuffer,
               ConsoleLog ''Raw JSON string from Gemini:'',
               ConsoleLog ''Successfully parsed data from Gemini.'',
               ConsoleWarn ''Invoice ID not extracted by Gemini''])
         \<and> (\<forall>name. name \<notin> {js ''S3Bucket'', js ''S3Key'', js ''processingEngine'', js ''extractionTimestamp''}
               \<longrightarrow> get_prop v name = map_of fs name)))"
proof (intro conjI impI)
  assume "fst (processPDFWithGemini env clock pdfBuffer s3Bucket s3Key) = Inr extractedData"
  then have "fst (gemini_try env clock pdfBuffer s3Bucket s3Key) = Inr extractedData"
    by (rule processPDF_Inr)
  then obtain response jsonString decoded where
    g: "generateContent env pdfBuffer = Inr response"
    and t: "response_text env response = Inr jsonString"
    and p: "JSON_parse env jsonString = Inr decoded"
    and a: "augment env (clock 175) decoded s3Bucket s3Key = Inr extractedData"
    using gemini_try_Inr by blast
  note gp = get_prop_augment [OF a]
  have "get_prop extractedData (js ''S3Bucket'') = Some (opt_str s3Bucket)"
    and "get_prop extractedData (js ''S3Key'') = Some (opt_str s3Key)"
    and "get_prop extractedData (js ''processingEngine'') = Some (JStr (js ''Gemini-1.5-Flash-Latest''))"
    and "get_prop extractedData (js ''extractionTimestamp'') = Some (JStr (toISOString env (clock 175)))"
    and "\<forall>name. name \<notin> {js ''S3Bucket'', js ''S3Key'', js ''processingEngine'', js ''extractionTimestamp''}
               \<longrightarrow> get_prop extractedData name = get_prop decoded name"
    and "get_prop extractedData (js ''TicketId'') = get_prop decoded (js ''TicketId'')"
    by (simp_all add: gp)
  with g t p show "\<exists>response jsonString decoded.
          generateContent env pdfBuffer = Inr response
        \<and> response_text env response = Inr jsonString
        \<and> JSON_parse env jsonString = Inr decoded
        \<and> get_prop extractedData (js ''S3Bucket'') = Some (opt_str s3Bucket)
        \<and> get_prop extractedData (js ''S3Key'') = Some (opt_str s3Key)
        \<and> get_prop extractedData (js ''processingEngine'') = Some (JStr (js ''Gemini-1.5-Flash-Latest''))
        \<and> get_prop extractedData (js ''extractionTimestamp'') = Some (JStr (toISOString env (clock 175)))
        \<and> (\<forall>name. name \<notin> {js ''S3Bucket'', js ''S3Key'', js ''processingEngine'', js ''extractionTimestamp''}
               \<longrightarrow> get_prop extractedData name = get_prop decoded name)
        \<and> get_prop extractedData (js ''TicketId'') = get_prop decoded (js ''TicketId'')"
    by blast
next
  assume h: "modelInstance env \<and> generateContent env pdfBuffer = Inr response
        \<and> \<not> invalid_structure response \<and> response_text env response = Inr jsonString
        \<and> JSON_parse env jsonString = Inr (JObj fs) \<and> \<not> truthy_opt (map_of fs (js ''invoiceId''))"
  obtain v where a: "augment env (clock 175) (JObj fs) s3Bucket s3Key = Inr v"
    using augment_total [of "JObj fs"] by blast
  have nid: "\<not> truthy_opt (get_prop (JObj fs) (js ''invoiceId''))"
    using h by (simp add: get_prop_def)
  have "gemini_try env clock pdfBuffer s3Bucket s3Key =
     (Inr v,
      [ConsoleLog ''Sending request to Gemini API'', GeminiGenerate pdfBuffer,
       ConsoleLog ''Raw JSON string from Gemini:'', ConsoleLog ''Successfully parsed data from Gemini.'',
       ConsoleWarn ''Invoice ID not extracted by Gemini''])"
    using gemini_try_warn [of env pdfBuffer response jsonString "JObj fs" clock s3Bucket s3Key v] h a nid
    by simp
  then have "processPDFWithGemini env clock pdfBuffer s3Bucket s3Key =
             (Inr v,
              [ConsoleLog ''Starting Gemini multimodal processing for PDF'',
               ConsoleLog ''Sending request to Gemini API'', GeminiGenerate pdfBuffer,
               ConsoleLog ''Raw JSON string from Gemini:'',
               ConsoleLog ''Successfully parsed data from Gemini.'',
               ConsoleWarn ''Invoice ID not extracted by Gemini''])"
    using h by (simp add: processPDFWithGemini_def)
  moreover have "\<forall>name. name \<notin> {js ''S3Bucket'', js ''S3Key'', js ''processingEngine'', js ''extractionTimestamp''}
               \<longrightarrow> get_prop v name = map_of fs name"
  proof -
    have obj: "get_prop (JObj fs) name = map_of fs name" for name
      by (simp add: get_prop_def)
    show ?thesis by (simp add: get_prop_augment [OF a] obj)
  qed
  ultimately show "\<exists>v. processPDFWithGemini env clock pdfBuffer s3Bucket s3Key =
             (Inr v,
              [ConsoleLog ''Starting Gemini multimodal processing for PDF'',
               ConsoleLog ''Sending request to Gemini API'', GeminiGenerate pdfBuffer,
               ConsoleLog ''Raw JSON string from Gemini:'',
               ConsoleLog ''Successfully parsed data from Gemini.'',
               ConsoleWarn ''Invoice ID not extracted by Gemini''])
         \<and> (\<forall>name. name \<notin> {js ''S3Bucket'', js ''S3Key'', js ''processingEngine'', js ''extractionTimestamp''}
               \<longrightarrow> get_prop v name = map_of fs name)"
    by blast
qed


lemma dynamo_puts_append: "dynamo_puts (a @ b) = dynamo_puts a @ dynamo_puts b"
  by (induction a rule: dynamo_puts.induct) simp_all

lemma gemini_try_no_puts: "dynamo_puts (snd (gemini_try env clock pdfBuffer s3Bucket s3Key)) = []"
  by (simp add: gemini_try_def Let_def split: sum.splits)

lemma processPDF_no_puts:
  "dynamo_puts (snd (processPDFWithGemini env clock pdfBuffer s3Bucket s3Key)) = []"
  using gemini_try_no_puts [of env clock pdfBuffer s3Bucket s3Key]
  by (auto simp add: processPDFWithGemini_def gemini_catch_eq dynamo_puts_append Let_def split: prod.splits sum.splits)

lemma saveToDynamo_puts: "dynamo_puts (snd (saveToDynamo env data)) = [data]"
  by (simp add: saveToDynamo_def Let_def split: option.splits)

lemma saveToDynamo_result:
  "fst (saveToDynamo env data) = (case db_put env data of None \<Rightarrow> Inr () | Some e \<Rightarrow> Inl e)"
  by (simp add: saveToDynamo_def Let_def split: option.splits)

text \<open>The outcome of the \<open>try\<close> block of a task, case by case.\<close>

lemma record_try_fetch_failed:
  assumes "s3_getObject env bucket k = Inl e"
  shows "record_try env i bucket k =
           (Inl e, None, [ConsoleLog ''Processing S3 object'', S3GetObject (Some bucket) k])"
  using assms by (simp add: record_try_def)

lemma record_try_not_buffer:
  assumes "s3_getObject env bucket k = Inr obj" and "Body obj = NotBuffer"
  shows "record_try env i bucket k =
           (Inl (new_Error env (js ''S3 object body is not a Buffer.'')), Some obj,
            [ConsoleLog ''Processing S3 object'', S3GetObject (Some bucket) k,
             ConsoleError ''S3 object body is not a Buffer.''])"
  using assms by (simp add: record_try_def)

lemma record_try_extraction_failed:
  assumes "s3_getObject env bucket k = Inr obj" and "Body obj = Buffer pdfBuffer"
    and "fst (processPDFWithGemini env (Date_now env i) pdfBuffer (Some bucket) (Some k)) = Inl e"
  shows "\<exists>tr. record_try env i bucket k = (Inl e, Some obj, tr) \<and> dynamo_puts tr = []"
  using assms processPDF_no_puts [of env "Date_now env i" pdfBuffer "Some bucket" "Some k"]
  by (auto simp add: record_try_def Let_def dynamo_puts_append split: prod.splits sum.splits)

lemma record_try_extracted:
  assumes "s3_getObject env bucket k = Inr obj" and "Body obj = Buffer pdfBuffer"
    and "fst (processPDFWithGemini env (Date_now env i) pdfBuffer (Some bucket) (Some k)) = Inr extractedData"
  shows "\<exists>tr. record_try env i bucket k =
           ((case db_put env (itemToSave env i k extractedData) of
               None \<Rightarrow> Inr (JObj [(js ''success'', JBool True), (js ''key'', JStr k),
                                  (js ''ticketId'', ticket_id env i k extractedData)])
             | Some e \<Rightarrow> Inl e),
            Some obj, tr)
         \<and> dynamo_puts tr = [itemToSave env i k extractedData]"
  using assms processPDF_no_puts [of env "Date_now env i" pdfBuffer "Some bucket" "Some k"]
  by (auto simp add: record_try_def saveToDynamo_def Let_def dynamo_puts_append
      split: prod.splits sum.splits option.splits)

lemma record_catch_eq:
  "\<exists>tr. record_catch env i bucket k err s3ObjectData =
      (JObj [(js ''success'', JBool False), (js ''key'', JStr k),
             (js ''error'', JStr (message err)),
             (js ''ticketId'', JStr (js ''error-'' @ k @ js ''-'' @ show_nat (Date_now env i 54)))],
       tr)
    \<and> dynamo_puts tr =
        [error_record env i bucket k err s3ObjectData
           (js ''error-'' @ k @ js ''-'' @ show_nat (Date_now env i 54))]
    \<and> (db_put env (error_record env i bucket k err s3ObjectData
           (js ''error-'' @ k @ js ''-'' @ show_nat (Date_now env i 54))) \<noteq> None
        \<longrightarrow> ConsoleError ''CRITICAL: Failed to save error record'' \<in> set tr)"
  by (auto simp add: record_catch_def saveToDynamo_def Let_def split: option.splits)

lemma process_record_decoded:
  assumes "decodeURIComponent (plus_to_space (object_key r)) = Some k"
  shows "process_record env i r =
     (case record_try env i (bucket_name r) k of
        (Inr outcome, s3ObjectData, tr) \<Rightarrow> Inr (outcome, tr)
      | (Inl err, s3ObjectData, tr) \<Rightarrow>
          Inr (fst (record_catch env i (bucket_name r) k err s3ObjectData),
               tr @ snd (record_catch env i (bucket_name r) k err s3ObjectData)))"
  using assms by (simp add: process_record_def split: prod.splits sum.splits)

lemma process_record_failed:
  assumes "decodeURIComponent (plus_to_space (object_key r)) = Some k"
    and "record_try env i (bucket_name r) k = (Inl err, s3ObjectData, tr)"
    and "dynamo_puts tr = []"
  shows "\<exists>tr'. process_record env i r =
      Inr (JObj [(js ''success'', JBool False), (js ''key'', JStr k),
                 (js ''error'', JStr (message err)),
                 (js ''ticketId'', JStr (js ''error-'' @ k @ js ''-'' @ show_nat (Date_now env i 54)))],
           tr')
    \<and> dynamo_puts tr' =
        [error_record env i (bucket_name r) k err s3ObjectData
           (js ''error-'' @ k @ js ''-'' @ show_nat (Date_now env i 54))]
    \<and> (db_put env (error_record env i (bucket_name r) k err s3ObjectData
           (js ''error-'' @ k @ js ''-'' @ show_nat (Date_now env i 54))) \<noteq> None
        \<longrightarrow> ConsoleError ''CRITICAL: Failed to save error record'' \<in> set tr')"
proof -
  obtain tc where c: "record_catch env i (bucket_name r) k err s3ObjectData =
      (JObj [(js ''success'', JBool False), (js ''key'', JStr k),
             (js ''error'', JStr (message err)),
             (js ''ticketId'', JStr (js ''error-'' @ k @ js ''-'' @ show_nat (Date_now env i 54)))],
       tc)"
    and p: "dynamo_puts tc =
        [error_record env i (bucket_name r) k err s3ObjectData
           (js ''error-'' @ k @ js ''-'' @ show_nat (Date_now env i 54))]"
    and l: "db_put env (error_record env i (bucket_name r) k err s3ObjectData
           (js ''error-'' @ k @ js ''-'' @ show_nat (Date_now env i 54))) \<noteq> None
        \<longrightarrow> ConsoleError ''CRITICAL: Failed to save error record'' \<in> set tc"
    using record_catch_eq [of env i "bucket_name r" k err s3ObjectData] by blast
  have "process_record env i r =
      Inr (JObj [(js ''success'', JBool False), (js ''key'', JStr k),
                 (js ''error'', JStr (message err)),
                 (js ''ticketId'', JStr (js ''error-'' @ k @ js ''-'' @ show_nat (Date_now env i 54)))],
           tr @ tc)"
    by (simp add: process_record_decoded [OF assms(1)] assms(2) c)
  moreover have "dynamo_puts (tr @ tc) =
        [error_record env i (bucket_name r) k err s3ObjectData
           (js ''error-'' @ k @ js ''-'' @ show_nat (Date_now env i 54))]"
    by (simp add: dynamo_puts_append assms(3) p)
  moreover have "db_put env (error_record env i (bucket_name r) k err s3ObjectData
           (js ''error-'' @ k @ js ''-'' @ show_nat (Date_now env i 54))) \<noteq> None
        \<longrightarrow> ConsoleError ''CRITICAL: Failed to save error record'' \<in> set (tr @ tc)"
    using l by simp
  ultimately show ?thesis by blast
qed

lemma demo_payloads_differ: "payload_with_id \<noteq> payload_without_id"
  by (simp add: payload_with_id_def payload_without_id_def)

text \<open>The frame property on the example PDF whose extraction has no \<open>invoiceId\<close>.\<close>

theorem processPDFWithGemini_frame_witness:
  "modelInstance demo_env
   \<and> generateContent demo_env [37, 80, 68, 70, 66] = Inr (demo_response payload_without_id)
   \<and> \<not> invalid_structure (demo_response payload_without_id)
   \<and> response_text demo_env (demo_response payload_without_id) = Inr payload_without_id
   \<and> JSON_parse demo_env payload_without_id = Inr (JObj [(js ''grandTotal'', JNum 7)])
   \<and> \<not> truthy_opt (map_of [(js ''grandTotal'', JNum 7)] (js ''invoiceId''))
   \<and> (\<exists>v. processPDFWithGemini demo_env (\<lambda>l. 1700000000000) [37, 80, 68, 70, 66] (Some (js ''inbox''))
              (Some (js ''noid.pdf'')) =
             (Inr v,
              [ConsoleLog ''Starting Gemini multimodal processing for PDF'',
               ConsoleLog ''Sending request to Gemini API'', GeminiGenerate [37, 80, 68, 70, 66],
               ConsoleLog ''Raw JSON string from Gemini:'',
               ConsoleLog ''Successfully parsed data from Gemini.'',
               ConsoleWarn ''Invoice ID not extracted by Gemini''])
         \<and> (\<forall>name. name \<notin> {js ''S3Bucket'', js ''S3Key'', js ''processingEngine'', js ''extractionTimestamp''}
               \<longrightarrow> get_prop v name = map_of [(js ''grandTotal'', JNum 7)] name))"
proof -
  have h1: "modelInstance demo_env"
    by (simp add: modelInstance_def demo_env_def)
  have h2: "generateContent demo_env [37, 80, 68, 70, 66] = Inr (demo_response payload_without_id)"
    by (simp add: demo_env_def)
  have h3: "\<not> invalid_structure (demo_response payload_without_id)"
    by (simp add: invalid_structure_def demo_response_def)
  have h4: "response_text demo_env (demo_response payload_without_id) = Inr payload_without_id"
    by (simp add: response_text_def demo_response_def)
  have h5: "JSON_parse demo_env payload_without_id = Inr (JObj [(js ''grandTotal'', JNum 7)])"
    using demo_payloads_differ by (simp add: demo_env_def demo_parse_def)
  have h6: "\<not> truthy_opt (map_of [(js ''grandTotal'', JNum 7)] (js ''invoiceId''))"
    by (simp add: truthy_opt_def)
  from h1 h2 h3 h4 h5 h6
    processPDFWithGemini_frame [where env = demo_env and pdfBuffer = "[37, 80, 68, 70, 66]"
      and response = "demo_response payload_without_id" and jsonString = payload_without_id
      and fs = "[(js ''grandTotal'', JNum 7)]" and clock = "\<lambda>l. 1700000000000"
      and ?s3Bucket = "Some (js ''inbox'')" and ?s3Key = "Some (js ''noid.pdf'')"]
  show ?thesis by blast
qed

lemma result_not_named_in_message:
  "\<not> sublist (js ''SAFETY'') (js ''result is not defined'')"
  "\<not> sublist (js ''blocked.pdf'') (js ''result is not defined'')"
  by (simp_all add: js_def sublist_code)

lemma extraction_failure_raises:
  assumes "\<not> modelInstance env
     \<or> (\<exists>e. generateContent env pdfBuffer = Inl e)
     \<or> (\<exists>response. generateContent env pdfBuffer = Inr response
           \<and> (invalid_structure response
              \<or> (\<exists>e. response_text env response = Inl e)
              \<or> (\<exists>jsonString e. response_text env response = Inr jsonString
                    \<and> JSON_parse env jsonString = Inl e)))"
  shows "\<exists>e. fst (processPDFWithGemini env clock pdfBuffer s3Bucket s3Key) = Inl e"
  using assms
  by (auto simp add: processPDFWithGemini_def gemini_try_def gemini_catch_eq Let_def)

text \<open>
  Claim C4, at a request that the backend declines with the block reason \<open>SAFETY\<close>.
  The function fails, but the error it raises is the \<open>ReferenceError\<close> of the \<open>catch\<close>
  block: its message names neither the block reason nor the source key
  \<open>blocked.pdf\<close>.
\<close>

theorem declined_request_raises_ReferenceError:
  "generateContent demo_env [37, 80, 68, 70, 67] = Inr demo_declined
   \<and> block_reason demo_declined = Some (js ''SAFETY'')
   \<and> fst (processPDFWithGemini demo_env (\<lambda>l. 1700000000000) [37, 80, 68, 70, 67] (Some (js ''inbox''))
            (Some (js ''blocked.pdf''))) =
       Inl (JsError (js ''ReferenceError'') (js ''result is not defined'')
              (Some (demo_stack (js ''ReferenceError'') (js ''result is not defined''))))
   \<and> \<not> sublist (js ''SAFETY'') (js ''result is not defined'')
   \<and> \<not> sublist (js ''blocked.pdf'') (js ''result is not defined'')"
proof -
  have g: "generateContent demo_env [37, 80, 68, 70, 67] = Inr demo_declined"
    by (simp add: demo_env_def)
  have b: "block_reason demo_declined = Some (js ''SAFETY'')"
    by (simp add: block_reason_def demo_declined_def)
  have i: "invalid_structure demo_declined"
    by (simp add: invalid_structure_def demo_declined_def)
  have m: "modelInstance demo_env"
    by (simp add: modelInstance_def demo_env_def)
  have s: "captureStackTrace demo_env = demo_stack"
    by (simp add: demo_env_def)
  have "fst (processPDFWithGemini demo_env (\<lambda>l. 1700000000000) [37, 80, 68, 70, 67] (Some (js ''inbox''))
            (Some (js ''blocked.pdf''))) =
       Inl (throw_new demo_env ''ReferenceError'' (js ''result is not defined''))"
    by (simp add: processPDFWithGemini_def m gemini_try_def g i gemini_catch_eq)
  then show ?thesis
    using g b result_not_named_in_message by (simp add: throw_new_def s)
qed

lemma error_record_fields:
  "get_prop (error_record env i bucket k err s3ObjectData tid) (js ''TicketId'') = Some (JStr tid)"
  "get_prop (error_record env i bucket k err s3ObjectData tid) (js ''Status'') =
     Some (JStr (js ''Error-ProcessingFailed''))"
  "get_prop (error_record env i bucket k err s3ObjectData tid) (js ''S3Bucket'') = Some (JStr bucket)"
  "get_prop (error_record env i bucket k err s3ObjectData tid) (js ''S3Key'') = Some (JStr k)"
  "get_prop (error_record env i bucket k err s3ObjectData tid) (js ''ErrorDetails'') =
     Some (JStr (message err))"
  "get_prop (error_record env i bucket k err s3ObjectData tid) (js ''ErrorStack'') =
     Some (case stack err of None \<Rightarrow> JNull
           | Some st \<Rightarrow> if st = [] then JNull else JStr (take 1000 st))"
  "get_prop (error_record env i bucket k err s3ObjectData tid) (js ''Timestamp'') =
     Some (JStr (toISOString env (Date_now env i 65)))"
  by (simp_all add: error_record_def get_prop_def)

lemma record_try_failure_cases:
  assumes "(\<exists>e. s3_getObject env bucket k = Inl e)
       \<or> (\<exists>obj. s3_getObject env bucket k = Inr obj \<and> Body obj = NotBuffer)
       \<or> (\<exists>obj pdfBuffer e. s3_getObject env bucket k = Inr obj \<and> Body obj = Buffer pdfBuffer
            \<and> fst (processPDFWithGemini env (Date_now env i) pdfBuffer (Some bucket) (Some k)) = Inl e)"
  shows "\<exists>err s3ObjectData tr. record_try env i bucket k = (Inl err, s3ObjectData, tr)
            \<and> dynamo_puts tr = []"
  using assms
proof (elim disjE exE conjE)
  fix e assume "s3_getObject env bucket k = Inl e"
  then show ?thesis by (simp add: record_try_fetch_failed)
next
  fix obj assume "s3_getObject env bucket k = Inr obj" "Body obj = NotBuffer"
  then show ?thesis by (simp add: record_try_not_buffer)
next
  fix obj pdfBuffer e
  assume "s3_getObject env bucket k = Inr obj" "Body obj = Buffer pdfBuffer"
    "fst (processPDFWithGemini env (Date_now env i) pdfBuffer (Some bucket) (Some k)) = Inl e"
  then show ?thesis using record_try_extraction_failed by blast
qed

text \<open>
  Claim C3. For a record whose fetch fails (the read is rejected or the body is not a
  \<open>Buffer\<close>) or whose extraction fails, the task makes exactly one table write, the
  Error Record: its \<open>TicketId\<close> is the non-empty string \<open>error-<key>-<timestamp>\<close>, its
  \<open>Status\<close> is \<open>Error-ProcessingFailed\<close>, and it carries the message of the caught
  error, the stack cut to at most 1000 code units (or \<open>null\<close>), the bucket, the key and a
  timestamp. Whether or not that write is accepted, the task resolves to its outcome
  object, marked as failed; a rejected write only adds the \<open>CRITICAL\<close> console entry.
\<close>

theorem error_record_attempted:
  assumes "decodeURIComponent (plus_to_space (object_key r)) = Some k"
    and "(\<exists>e. s3_getObject env (bucket_name r) k = Inl e)
       \<or> (\<exists>obj. s3_getObject env (bucket_name r) k = Inr obj \<and> Body obj = NotBuffer)
       \<or> (\<exists>obj pdfBuffer e. s3_getObject env (bucket_name r) k = Inr obj
            \<and> Body obj = Buffer pdfBuffer
            \<and> fst (processPDFWithGemini env (Date_now env i) pdfBuffer (Some (bucket_name r)) (Some k))
                = Inl e)"
  shows "\<exists>err s3ObjectData outcome tr errorRecord.
        fst (record_try env i (bucket_name r) k) = Inl err
      \<and> process_record env i r = Inr (outcome, tr)
      \<and> errorRecord = error_record env i (bucket_name r) k err s3ObjectData
                        (js ''error-'' @ k @ js ''-'' @ show_nat (Date_now env i 54))
      \<and> dynamo_puts tr = [errorRecord]
      \<and> get_prop errorRecord (js ''TicketId'') =
            Some (JStr (js ''error-'' @ k @ js ''-'' @ show_nat (Date_now env i 54)))
      \<and> js ''error-'' @ k @ js ''-'' @ show_nat (Date_now env i 54) \<noteq> []
      \<and> get_prop errorRecord (js ''Status'') = Some (JStr (js ''Error-ProcessingFailed''))
      \<and> get_prop errorRecord (js ''ErrorDetails'') = Some (JStr (message err))
      \<and> get_prop errorRecord (js ''ErrorStack'') =
            Some (case stack err of None \<Rightarrow> JNull
                  | Some st \<Rightarrow> if st = [] then JNull else JStr (take 1000 st))
      \<and> (\<forall>st. get_prop errorRecord (js ''ErrorStack'') = Some (JStr st) \<longrightarrow> length st \<le> 1000)
      \<and> get_prop errorRecord (js ''S3Bucket'') = Some (JStr (bucket_name r))
      \<and> get_prop errorRecord (js ''S3Key'') = Some (JStr k)
      \<and> get_prop errorRecord (js ''Timestamp'') = Some (JStr (toISOString env (Date_now env i 65)))
      \<and> get_prop outcome (js ''success'') = Some (JBool False)
      \<and> get_prop outcome (js ''error'') = Some (JStr (message err))
      \<and> get_prop outcome (js ''ticketId'') =
            Some (JStr (js ''error-'' @ k @ js ''-'' @ show_nat (Date_now env i 54)))
      \<and> (db_put env errorRecord \<noteq> None
            \<longrightarrow> ConsoleError ''CRITICAL: Failed to save error record'' \<in> set tr)"
proof -
  obtain err s3ObjectData tr0 where
    t: "record_try env i (bucket_name r) k = (Inl err, s3ObjectData, tr0)"
    and p0: "dynamo_puts tr0 = []"
    using record_try_failure_cases [OF assms(2)] by blast
  define tid where "tid = js ''error-'' @ k @ js ''-'' @ show_nat (Date_now env i 54)"
  define errorRecord where "errorRecord = error_record env i (bucket_name r) k err s3ObjectData tid"
  define outcome where "outcome = JObj [(js ''success'', JBool False), (js ''key'', JStr k),
                 (js ''error'', JStr (message err)), (js ''ticketId'', JStr tid)]"
  obtain tr where
    pr: "process_record env i r = Inr (outcome, tr)"
    and puts: "dynamo_puts tr = [errorRecord]"
    and crit: "db_put env errorRecord \<noteq> None
        \<longrightarrow> ConsoleError ''CRITICAL: Failed to save error record'' \<in> set tr"
    using process_record_failed [OF assms(1) t p0]
    unfolding tid_def errorRecord_def outcome_def by blast
  have f: "fst (record_try env i (bucket_name r) k) = Inl err"
    by (simp add: t)
  have ne: "tid \<noteq> []"
    by (simp add: tid_def)
  have stack_len: "\<forall>st. get_prop errorRecord (js ''ErrorStack'') = Some (JStr st) \<longrightarrow> length st \<le> 1000"
    by (auto simp add: errorRecord_def error_record_fields split: option.splits if_splits)
  have out: "get_prop outcome (js ''success'') = Some (JBool False)"
    "get_prop outcome (js ''error'') = Some (JStr (message err))"
    "get_prop outcome (js ''ticketId'') = Some (JStr tid)"
    by (simp_all add: outcome_def get_prop_def)
  show ?thesis
    apply (rule exI [of _ err])
    apply (rule exI [of _ s3ObjectData])
    apply (rule exI [of _ outcome])
    apply (rule exI [of _ tr])
    apply (rule exI [of _ errorRecord])
    using f pr puts crit ne stack_len out
    apply (simp add: tid_def [symmetric] errorRecord_def [symmetric])
    apply (simp add: errorRecord_def error_record_fields)
    done
qed


lemma decodeURIComponent_plain:
  assumes "37 \<notin> set s"
  shows "decodeURIComponent s = Some s"
proof -
  have t: "uri_tokens s = Some (map Unit s)"
    using assms by (induction s) simp_all
  have d: "decode_tokens (map Unit s) = Some s"
    by (induction s) simp_all
  show ?thesis by (simp add: decodeURIComponent_def t d)
qed

lemma process_record_cases:
  assumes d: "decodeURIComponent (plus_to_space (object_key r)) = Some k"
  shows "(\<exists>obj pdfBuffer extractedData tr.
            s3_getObject env (bucket_name r) k = Inr obj \<and> Body obj = Buffer pdfBuffer
          \<and> fst (processPDFWithGemini env (Date_now env i) pdfBuffer (Some (bucket_name r)) (Some k))
               = Inr extractedData
          \<and> db_put env (itemToSave env i k extractedData) = None
          \<and> process_record env i r =
               Inr (JObj [(js ''success'', JBool True), (js ''key'', JStr k),
                          (js ''ticketId'', ticket_id env i k extractedData)], tr)
          \<and> dynamo_puts tr = [itemToSave env i k extractedData])
       \<or> (\<not> item_succeeds env i r
          \<and> (\<exists>err tr. process_record env i r =
               Inr (JObj [(js ''success'', JBool False), (js ''key'', JStr k),
                          (js ''error'', JStr (message err)),
                          (js ''ticketId'',
                           JStr (js ''error-'' @ k @ js ''-'' @ show_nat (Date_now env i 54)))], tr)))"
proof (cases "s3_getObject env (bucket_name r) k")
  case (Inl e)
  have "\<not> item_succeeds env i r"
    using d Inl by (simp add: item_succeeds_def)
  moreover have "\<exists>err tr. process_record env i r =
               Inr (JObj [(js ''success'', JBool False), (js ''key'', JStr k),
                          (js ''error'', JStr (message err)),
                          (js ''ticketId'',
                           JStr (js ''error-'' @ k @ js ''-'' @ show_nat (Date_now env i 54)))], tr)"
    using process_record_failed [OF d record_try_fetch_failed [OF Inl, of i]] by auto
  ultimately show ?thesis by blast
next
  case (Inr obj)
  show ?thesis
  proof (cases "Body obj")
    case NotBuffer
    have "\<not> item_succeeds env i r"
      using d Inr NotBuffer by (simp add: item_succeeds_def)
    moreover have "\<exists>err tr. process_record env i r =
               Inr (JObj [(js ''success'', JBool False), (js ''key'', JStr k),
                          (js ''error'', JStr (message err)),
                          (js ''ticketId'',
                           JStr (js ''error-'' @ k @ js ''-'' @ show_nat (Date_now env i 54)))], tr)"
      using process_record_failed [OF d record_try_not_buffer [OF Inr NotBuffer, of i]] by auto
    ultimately show ?thesis by blast
  next
    case (Buffer pdfBuffer)
    show ?thesis
    proof (cases "fst (processPDFWithGemini env (Date_now env i) pdfBuffer (Some (bucket_name r)) (Some k))")
      case (Inl e)
      have "\<not> item_succeeds env i r"
        using d Inr Buffer Inl by (simp add: item_succeeds_def)
      moreover obtain tr0 where "record_try env i (bucket_name r) k = (Inl e, Some obj, tr0)"
        and "dynamo_puts tr0 = []"
        using record_try_extraction_failed [OF Inr Buffer Inl] by blast
      then have "\<exists>err tr. process_record env i r =
               Inr (JObj [(js ''success'', JBool False), (js ''key'', JStr k),
                          (js ''error'', JStr (message err)),
                          (js ''ticketId'',
                           JStr (js ''error-'' @ k @ js ''-'' @ show_nat (Date_now env i 54)))], tr)"
        using process_record_failed [OF d] by blast
      ultimately show ?thesis by blast
    next
      case ex: (Inr extractedData)
      obtain tr0 where t: "record_try env i (bucket_name r) k =
           ((case db_put env (itemToSave env i k extractedData) of
               None \<Rightarrow> Inr (JObj [(js ''success'', JBool True), (js ''key'', JStr k),
                                  (js ''ticketId'', ticket_id env i k extractedData)])
             | Some e \<Rightarrow> Inl e),
            Some obj, tr0)"
        and p0: "dynamo_puts tr0 = [itemToSave env i k extractedData]"
        using record_try_extracted [OF Inr Buffer ex] by blast
      show ?thesis
      proof (cases "db_put env (itemToSave env i k extractedData)")
        case None
        have "process_record env i r =
               Inr (JObj [(js ''success'', JBool True), (js ''key'', JStr k),
                          (js ''ticketId'', ticket_id env i k extractedData)], tr0)"
          by (simp add: process_record_decoded [OF d] t None)
        with Inr Buffer ex None p0 show ?thesis by blast
      next
        case (Some e)
        have "\<not> item_succeeds env i r"
          using d Inr Buffer ex Some by (simp add: item_succeeds_def)
        moreover have "\<exists>err tr. process_record env i r =
               Inr (JObj [(js ''success'', JBool False), (js ''key'', JStr k),
                          (js ''error'', JStr (message err)),
                          (js ''ticketId'',
                           JStr (js ''error-'' @ k @ js ''-'' @ show_nat (Date_now env i 54)))], tr)"
          using record_catch_eq [of env i "bucket_name r" k e "Some obj"]
          by (auto simp add: process_record_decoded [OF d] t Some)
        ultimately show ?thesis by blast
      qed
    qed
  qed
qed

lemma itemToSave_TicketId:
  "get_prop (itemToSave env i k extractedData) (js ''TicketId'') = Some (ticket_id env i k extractedData)"
  by (simp add: itemToSave_def get_prop_def update_conv')

lemma process_record_Inr_decoded:
  assumes "process_record env i r = Inr x"
  shows "\<exists>k. decodeURIComponent (plus_to_space (object_key r)) = Some k"
  using assms by (cases "decodeURIComponent (plus_to_space (object_key r))") (simp_all add: process_record_def)

text \<open>
  Claim C2. When the task of a record resolves to an outcome marked as success, the
  record was fetched, extracted and persisted by exactly one table write, and the
  \<open>TicketId\<close> of the written item is the extracted \<open>invoiceId\<close> when that is truthy (for
  a string: non-empty) and otherwise the string \<open>fallback-<key>-<timestamp>\<close>, which
  contains the decoded object key.
\<close>

theorem persisted_TicketId:
  assumes "process_record env i r = Inr (outcome, tr)"
    and "get_prop outcome (js ''success'') = Some (JBool True)"
  shows "\<exists>k obj pdfBuffer extractedData item.
      decodeURIComponent (plus_to_space (object_key r)) = Some k
    \<and> s3_getObject env (bucket_name r) k = Inr obj \<and> Body obj = Buffer pdfBuffer
    \<and> fst (processPDFWithGemini env (Date_now env i) pdfBuffer (Some (bucket_name r)) (Some k))
         = Inr extractedData
    \<and> item = itemToSave env i k extractedData
    \<and> dynamo_puts tr = [item] \<and> db_put env item = None
    \<and> (\<forall>s. get_prop extractedData (js ''invoiceId'') = Some (JStr s) \<and> s \<noteq> []
          \<longrightarrow> get_prop item (js ''TicketId'') = Some (JStr s))
    \<and> (\<forall>v. get_prop extractedData (js ''invoiceId'') = Some v \<and> truthy v
          \<longrightarrow> get_prop item (js ''TicketId'') = Some v)
    \<and> (\<not> truthy_opt (get_prop extractedData (js ''invoiceId''))
          \<longrightarrow> get_prop item (js ''TicketId'') =
                Some (JStr (js ''fallback-'' @ k @ js ''-'' @ show_nat (Date_now env i 42))))
    \<and> sublist k (js ''fallback-'' @ k @ js ''-'' @ show_nat (Date_now env i 42))
    \<and> get_prop outcome (js ''ticketId'') = get_prop item (js ''TicketId'')"
proof -
  obtain k where d: "decodeURIComponent (plus_to_space (object_key r)) = Some k"
    using process_record_Inr_decoded [OF assms(1)] by blast
  have ok: "\<exists>obj pdfBuffer extractedData.
            s3_getObject env (bucket_name r) k = Inr obj \<and> Body obj = Buffer pdfBuffer
          \<and> fst (processPDFWithGemini env (Date_now env i) pdfBuffer (Some (bucket_name r)) (Some k))
               = Inr extractedData
          \<and> db_put env (itemToSave env i k extractedData) = None
          \<and> outcome = JObj [(js ''success'', JBool True), (js ''key'', JStr k),
                          (js ''ticketId'', ticket_id env i k extractedData)]
          \<and> dynamo_puts tr = [itemToSave env i k extractedData]"
    using process_record_cases [OF d, of env i]
  proof (elim disjE exE conjE)
    fix err tr'
    assume "process_record env i r =
               Inr (JObj [(js ''success'', JBool False), (js ''key'', JStr k),
                          (js ''error'', JStr (message err)),
                          (js ''ticketId'',
                           JStr (js ''error-'' @ k @ js ''-'' @ show_nat (Date_now env i 54)))], tr')"
    with assms(1) have "get_prop outcome (js ''success'') = Some (JBool False)"
      by (auto simp add: get_prop_def)
    with assms(2) show ?thesis by simp
  next
    fix obj pdfBuffer extractedData tr'
    assume "s3_getObject env (bucket_name r) k = Inr obj" "Body obj = Buffer pdfBuffer"
      "fst (processPDFWithGemini env (Date_now env i) pdfBuffer (Some (bucket_name r)) (Some k))
               = Inr extractedData"
      "db_put env (itemToSave env i k extractedData) = None"
      "process_record env i r =
               Inr (JObj [(js ''success'', JBool True), (js ''key'', JStr k),
                          (js ''ticketId'', ticket_id env i k extractedData)], tr')"
      "dynamo_puts tr' = [itemToSave env i k extractedData]"
    with assms(1) show ?thesis by auto
  qed
  then obtain obj pdfBuffer extractedData where
    g: "s3_getObject env (bucket_name r) k = Inr obj" and b: "Body obj = Buffer pdfBuffer"
    and e: "fst (processPDFWithGemini env (Date_now env i) pdfBuffer (Some (bucket_name r)) (Some k))
         = Inr extractedData"
    and p: "db_put env (itemToSave env i k extractedData) = None"
    and o: "outcome = JObj [(js ''success'', JBool True), (js ''key'', JStr k),
                          (js ''ticketId'', ticket_id env i k extractedData)]"
    and w: "dynamo_puts tr = [itemToSave env i k extractedData]"
    by blast
  have t1: "\<forall>v. get_prop extractedData (js ''invoiceId'') = Some v \<and> truthy v
          \<longrightarrow> get_prop (itemToSave env i k extractedData) (js ''TicketId'') = Some v"
    by (simp add: itemToSave_TicketId ticket_id_def)
  then have t0: "\<forall>s. get_prop extractedData (js ''invoiceId'') = Some (JStr s) \<and> s \<noteq> []
          \<longrightarrow> get_prop (itemToSave env i k extractedData) (js ''TicketId'') = Some (JStr s)"
    by simp
  have t2: "\<not> truthy_opt (get_prop extractedData (js ''invoiceId''))
          \<longrightarrow> get_prop (itemToSave env i k extractedData) (js ''TicketId'') =
                Some (JStr (js ''fallback-'' @ k @ js ''-'' @ show_nat (Date_now env i 42)))"
    by (simp add: itemToSave_TicketId ticket_id_def truthy_opt_def split: option.splits)
  have t3: "sublist k (js ''fallback-'' @ k @ js ''-'' @ show_nat (Date_now env i 42))"
    by (rule sublist_appendI)
  have t4: "get_prop outcome (js ''ticketId'') =
      get_prop (itemToSave env i k extractedData) (js ''TicketId'')"
  proof -
    have "get_prop outcome (js ''ticketId'') = Some (ticket_id env i k extractedData)"
      by (simp add: o get_prop_def)
    then show ?thesis by (simp only: itemToSave_TicketId)
  qed
  show ?thesis
    apply (rule exI [of _ k])
    apply (rule exI [of _ obj])
    apply (rule exI [of _ pdfBuffer])
    apply (rule exI [of _ extractedData])
    apply (rule exI [of _ "itemToSave env i k extractedData"])
    apply (intro conjI)
    apply (rule d g b e refl w p t0 t1 t2 t3 t4)+
    done
qed

lemma Promise_all_resolved:
  assumes "\<forall>p \<in> set ps. \<exists>x. p = Inr x"
  shows "\<exists>xs. Promise_all ps = Inr xs \<and> ps = map Inr xs"
  using assms
proof (induction ps)
  case Nil
  then show ?case by simp
next
  case (Cons p ps)
  from Cons.prems obtain x where px: "p = Inr x" by auto
  from Cons.prems have "\<forall>p \<in> set ps. \<exists>x. p = Inr x" by simp
  with Cons.IH obtain xs where "Promise_all ps = Inr xs" "ps = map Inr xs" by blast
  with px have "p = Inr x" "Promise_all ps = Inr xs" "ps = map Inr xs" by simp_all
  then show ?case by (intro exI [of _ "x # xs"]) simp
qed

lemma Promise_all_rejected:
  assumes "Inl e \<in> set ps" and "\<forall>e'. Inl e' \<in> set ps \<longrightarrow> e' = e"
  shows "Promise_all ps = Inl e"
  using assms
proof (induction ps)
  case Nil
  then show ?case by simp
next
  case (Cons q qs)
  show ?case
  proof (cases q)
    case (Inl e')
    with Cons.prems(2) have "e' = e" by simp
    with Inl show ?thesis by simp
  next
    case (Inr x)
    with Cons.prems(1) have m: "Inl e \<in> set qs" by simp
    from Cons.prems(2) have "\<forall>e'. Inl e' \<in> set qs \<longrightarrow> e' = e" by simp
    with Cons.IH m have "Promise_all qs = Inl e" by blast
    with Inr show ?thesis by simp
  qed
qed

lemma process_record_resolves:
  assumes d: "decodeURIComponent (plus_to_space (object_key r)) = Some k"
  shows "\<exists>outcome tr. process_record env i r = Inr (outcome, tr)
     \<and> (get_prop outcome (js ''success'') = Some (JBool True)
          \<or> get_prop outcome (js ''success'') = Some (JBool False))
     \<and> (get_prop outcome (js ''success'') = Some (JBool True) \<longleftrightarrow> item_succeeds env i r)"
  using process_record_cases [OF d, of env i]
proof (elim disjE exE conjE)
  fix err tr
  assume n: "\<not> item_succeeds env i r"
    and pr: "process_record env i r =
               Inr (JObj [(js ''success'', JBool False), (js ''key'', JStr k),
                          (js ''error'', JStr (message err)),
                          (js ''ticketId'',
                           JStr (js ''error-'' @ k @ js ''-'' @ show_nat (Date_now env i 54)))], tr)"
  show ?thesis
    by (simp add: pr n get_prop_def)
next
  fix obj pdfBuffer extractedData tr
  assume g: "s3_getObject env (bucket_name r) k = Inr obj" and b: "Body obj = Buffer pdfBuffer"
    and e: "fst (processPDFWithGemini env (Date_now env i) pdfBuffer (Some (bucket_name r)) (Some k))
               = Inr extractedData"
    and p: "db_put env (itemToSave env i k extractedData) = None"
    and pr: "process_record env i r =
               Inr (JObj [(js ''success'', JBool True), (js ''key'', JStr k),
                          (js ''ticketId'', ticket_id env i k extractedData)], tr)"
  have "item_succeeds env i r"
    unfolding item_succeeds_def using d g b e p by blast
  then show ?thesis
    by (simp add: pr get_prop_def)
qed

lemma process_record_Inl:
  assumes "process_record env i r = Inl e"
  shows "decodeURIComponent (plus_to_space (object_key r)) = None
         \<and> e = throw_new env ''URIError'' (js ''URI malformed'')"
proof (cases "decodeURIComponent (plus_to_space (object_key r))")
  case None
  with assms show ?thesis by (simp add: process_record_def)
next
  case (Some k)
  from process_record_resolves [OF Some, of env i] assms show ?thesis by auto
qed

lemma process_record_undecodable:
  assumes "decodeURIComponent (plus_to_space (object_key r)) = None"
  shows "process_record env i r = Inl (throw_new env ''URIError'' (js ''URI malformed''))"
  using assms by (simp add: process_record_def)

lemma tasks_nth:
  assumes "i < length Records"
  shows "map (\<lambda>(i, r). process_record env i r) (enumerate 0 Records) ! i
           = process_record env i (Records ! i)"
  using assms by (simp add: nth_enumerate_eq)

lemma tasks_set:
  assumes "p \<in> set (map (\<lambda>(i, r). process_record env i r) (enumerate 0 Records))"
  shows "\<exists>i r. r \<in> set Records \<and> p = process_record env i r"
proof -
  from assms obtain a where "a < length Records" and "p = process_record env a (Records ! a)"
    by (auto simp add: in_set_enumerate_eq)
  then show ?thesis by (metis nth_mem)
qed

lemma processEmail_critical:
  assumes "r \<in> set Records" and "decodeURIComponent (plus_to_space (object_key r)) = None"
  shows "processEmail env Records =
     (\<lparr>statusCode = 500,
       body = JSON_stringify env
         (JObj [(js ''message'', JStr (js ''Critical error during S3 event processing.'')),
                (js ''error'', JStr (js ''URI malformed''))])\<rparr>,
      [ConsoleLog ''Received S3 event:''] @ concat (map started Records)
      @ [ConsoleError ''Critical error in processEmail handler:''])"
proof -
  let ?ps = "map (\<lambda>(i, r). process_record env i r) (enumerate 0 Records)"
  let ?e = "throw_new env ''URIError'' (js ''URI malformed'')"
  from assms(1) obtain i where i: "i < length Records" "Records ! i = r"
    by (auto simp add: in_set_conv_nth)
  have "?ps ! i = process_record env i (Records ! i)"
    using i(1) by (rule tasks_nth)
  then have "?ps ! i = Inl ?e"
    using process_record_undecodable [OF assms(2), of env i] by (simp only: i(2))
  moreover have "i < length ?ps" using i by simp
  ultimately have m: "Inl ?e \<in> set ?ps" by (metis nth_mem)
  have "\<forall>e'. Inl e' \<in> set ?ps \<longrightarrow> e' = ?e"
  proof (intro allI impI)
    fix e' assume "Inl e' \<in> set ?ps"
    then obtain j r' where "Inl e' = process_record env j r'"
      using tasks_set by blast
    then show "e' = ?e" using process_record_Inl [of env j r' e'] by simp
  qed
  with m have "Promise_all ?ps = Inl ?e" by (rule Promise_all_rejected)
  then show ?thesis
    by (simp add: processEmail_def throw_new_def)
qed



subsection \<open>The example event\<close>

lemma demo_keys:
  "decodeURIComponent (plus_to_space (js ''a+b.pdf'')) = Some (js ''a b.pdf'')"
  "decodeURIComponent (plus_to_space (js ''missing.pdf'')) = Some (js ''missing.pdf'')"
  "decodeURIComponent (plus_to_space (js ''noid.pdf'')) = Some (js ''noid.pdf'')"
  "decodeURIComponent (plus_to_space (js ''%'')) = None"
  by (simp_all add: decodeURIComponent_def plus_to_space_def js_def)

lemma demo_extraction_with_id:
  "fst (processPDFWithGemini demo_env (Date_now demo_env i) [37, 80, 68, 70, 65] (Some (js ''inbox'')) (Some (js ''a b.pdf'')))
     = Inr (JObj [(js ''invoiceId'', JStr (js ''INV-42'')), (js ''grandTotal'', JNum 100),
                  (js ''S3Bucket'', JStr (js ''inbox'')), (js ''S3Key'', JStr (js ''a b.pdf'')),
                  (js ''processingEngine'', JStr (js ''Gemini-1.5-Flash-Latest'')),
                  (js ''extractionTimestamp'', JStr (js ''2023-11-14T22:13:20.000Z''))])"
  by (simp add: processPDFWithGemini_def modelInstance_def demo_env_def gemini_try_def
      invalid_structure_def demo_response_def response_text_def demo_parse_def augment_def
      opt_str_def get_prop_def truthy_opt_def Let_def)

lemma demo_extraction_without_id:
  "fst (processPDFWithGemini demo_env (Date_now demo_env i) [37, 80, 68, 70, 66] (Some (js ''inbox'')) (Some (js ''noid.pdf'')))
     = Inr (JObj [(js ''grandTotal'', JNum 7),
                  (js ''S3Bucket'', JStr (js ''inbox'')), (js ''S3Key'', JStr (js ''noid.pdf'')),
                  (js ''processingEngine'', JStr (js ''Gemini-1.5-Flash-Latest'')),
                  (js ''extractionTimestamp'', JStr (js ''2023-11-14T22:13:20.000Z''))])"
  using demo_payloads_differ
  by (simp add: processPDFWithGemini_def modelInstance_def demo_env_def gemini_try_def
      invalid_structure_def demo_response_def response_text_def demo_parse_def augment_def
      opt_str_def get_prop_def truthy_opt_def Let_def)

lemma demo_store:
  "s3_getObject demo_env (js ''inbox'') (js ''a b.pdf'') =
     Inr \<lparr>Body = Buffer [37, 80, 68, 70, 65], ContentLength = Some 5, ContentType = Some (js ''application/pdf'')\<rparr>"
  "s3_getObject demo_env (js ''inbox'') (js ''noid.pdf'') =
     Inr \<lparr>Body = Buffer [37, 80, 68, 70, 66], ContentLength = Some 5, ContentType = None\<rparr>"
  "s3_getObject demo_env (js ''inbox'') (js ''missing.pdf'') =
     Inl (JsError (js ''NoSuchKey'') (js ''The specified key does not exist.'') None)"
  "db_put demo_env item = None"
  by (simp_all add: demo_env_def)

lemma demo_item_0: "item_succeeds demo_env 0 \<lparr>bucket_name = js ''inbox'', object_key = js ''a+b.pdf''\<rparr>"
  by (simp add: item_succeeds_def demo_keys demo_store demo_extraction_with_id)


lemma demo_item_2: "item_succeeds demo_env 2 \<lparr>bucket_name = js ''inbox'', object_key = js ''noid.pdf''\<rparr>"
  by (simp add: item_succeeds_def demo_keys demo_store demo_extraction_without_id)



text \<open>
  A key that is not a URL encoding, such as \<open>%\<close>, is outside what the storage
  notification delivers. Line 16 decodes the key before the \<open>try\<close> block of the task, so
  on such a key the task is rejected and the handler answers through its outer \<open>catch\<close>:
  status 500 and no outcome, after the task of the first record has logged and called
  \<open>s3.getObject\<close>.
\<close>

lemma processEmail_undecodable_key:
  "processEmail demo_env
     [\<lparr>bucket_name = js ''inbox'', object_key = js ''a+b.pdf''\<rparr>,
      \<lparr>bucket_name = js ''inbox'', object_key = js ''%''\<rparr>] =
   (\<lparr>statusCode = 500,
     body = JSON_stringify demo_env
       (JObj [(js ''message'', JStr (js ''Critical error during S3 event processing.'')),
              (js ''error'', JStr (js ''URI malformed''))])\<rparr>,
    [ConsoleLog ''Received S3 event:'', ConsoleLog ''Processing S3 object'',
     S3GetObject (Some (js ''inbox'')) (js ''a b.pdf''),
     ConsoleError ''Critical error in processEmail handler:''])"
proof -
  have "processEmail demo_env
     [\<lparr>bucket_name = js ''inbox'', object_key = js ''a+b.pdf''\<rparr>,
      \<lparr>bucket_name = js ''inbox'', object_key = js ''%''\<rparr>] =
   (\<lparr>statusCode = 500,
     body = JSON_stringify demo_env
       (JObj [(js ''message'', JStr (js ''Critical error during S3 event processing.'')),
              (js ''error'', JStr (js ''URI malformed''))])\<rparr>,
    [ConsoleLog ''Received S3 event:'']
    @ concat (map started [\<lparr>bucket_name = js ''inbox'', object_key = js ''a+b.pdf''\<rparr>,
                           \<lparr>bucket_name = js ''inbox'', object_key = js ''%''\<rparr>])
    @ [ConsoleError ''Critical error in processEmail handler:''])"
    by (rule processEmail_critical [of "\<lparr>bucket_name = js ''inbox'', object_key = js ''%''\<rparr>"])
       (simp_all add: demo_keys)
  then show ?thesis
    by (simp add: started_def demo_keys)
qed

text \<open>
  Claim C2 on the first record of the example event, whose extraction carries the
  \<open>invoiceId\<close> \<open>INV-42\<close>, and on the third, whose extraction has none.
\<close>

theorem persisted_TicketId_witness:
  "(\<exists>outcome tr item.
       process_record demo_env 0 \<lparr>bucket_name = js ''inbox'', object_key = js ''a+b.pdf''\<rparr>
         = Inr (outcome, tr)
     \<and> get_prop outcome (js ''success'') = Some (JBool True)
     \<and> dynamo_puts tr = [item]
     \<and> get_prop item (js ''TicketId'') = Some (JStr (js ''INV-42'')))
   \<and> (\<exists>outcome tr item.
       process_record demo_env 2 \<lparr>bucket_name = js ''inbox'', object_key = js ''noid.pdf''\<rparr>
         = Inr (outcome, tr)
     \<and> get_prop outcome (js ''success'') = Some (JBool True)
     \<and> dynamo_puts tr = [item]
     \<and> get_prop item (js ''TicketId'')
          = Some (JStr (js ''fallback-'' @ js ''noid.pdf'' @ js ''-'' @ show_nat 1700000000002)))"
proof (rule conjI)
  let ?r = "\<lparr>bucket_name = js ''inbox'', object_key = js ''a+b.pdf''\<rparr>"
  have d: "decodeURIComponent (plus_to_space (object_key ?r)) = Some (js ''a b.pdf'')"
    by (simp add: demo_keys)
  from process_record_resolves [OF d, of demo_env 0] demo_item_0
  obtain outcome tr where pr: "process_record demo_env 0 ?r = Inr (outcome, tr)"
    and ok: "get_prop outcome (js ''success'') = Some (JBool True)"
    by auto
  from persisted_TicketId [OF pr ok]
  obtain k obj pdfBuffer extractedData where
    k: "decodeURIComponent (plus_to_space (object_key ?r)) = Some k"
    and g: "s3_getObject demo_env (bucket_name ?r) k = Inr obj" and b: "Body obj = Buffer pdfBuffer"
    and e: "fst (processPDFWithGemini demo_env (Date_now demo_env 0) pdfBuffer (Some (bucket_name ?r))
               (Some k)) = Inr extractedData"
    and w: "dynamo_puts tr = [itemToSave demo_env 0 k extractedData]"
    and t: "\<forall>s. get_prop extractedData (js ''invoiceId'') = Some (JStr s) \<and> s \<noteq> []
          \<longrightarrow> get_prop (itemToSave demo_env 0 k extractedData) (js ''TicketId'') = Some (JStr s)"
    by auto
  from k d have k': "k = js ''a b.pdf''" by simp
  from g b have p': "pdfBuffer = [37, 80, 68, 70, 65]"
    by (auto simp add: k' demo_store(1))
  from e have "get_prop extractedData (js ''invoiceId'') = Some (JStr (js ''INV-42''))"
    by (auto simp add: k' p' demo_extraction_with_id get_prop_def)
  with t have "get_prop (itemToSave demo_env 0 k extractedData) (js ''TicketId'')
                 = Some (JStr (js ''INV-42''))"
    by simp
  with pr ok w show "\<exists>outcome tr item.
       process_record demo_env 0 ?r = Inr (outcome, tr)
     \<and> get_prop outcome (js ''success'') = Some (JBool True)
     \<and> dynamo_puts tr = [item]
     \<and> get_prop item (js ''TicketId'') = Some (JStr (js ''INV-42''))"
    by (intro exI [of _ outcome] exI [of _ tr] exI [of _ "itemToSave demo_env 0 k extractedData"])
       simp
next
  let ?r = "\<lparr>bucket_name = js ''inbox'', object_key = js ''noid.pdf''\<rparr>"
  have d: "decodeURIComponent (plus_to_space (object_key ?r)) = Some (js ''noid.pdf'')"
    by (simp add: demo_keys)
  from process_record_resolves [OF d, of demo_env 2] demo_item_2
  obtain outcome tr where pr: "process_record demo_env 2 ?r = Inr (outcome, tr)"
    and ok: "get_prop outcome (js ''success'') = Some (JBool True)"
    by auto
  from persisted_TicketId [OF pr ok]
  obtain k obj pdfBuffer extractedData where
    k: "decodeURIComponent (plus_to_space (object_key ?r)) = Some k"
    and g: "s3_getObject demo_env (bucket_name ?r) k = Inr obj" and b: "Body obj = Buffer pdfBuffer"
    and e: "fst (processPDFWithGemini demo_env (Date_now demo_env 2) pdfBuffer (Some (bucket_name ?r))
               (Some k)) = Inr extractedData"
    and w: "dynamo_puts tr = [itemToSave demo_env 2 k extractedData]"
    and t: "\<not> truthy_opt (get_prop extractedData (js ''invoiceId''))
          \<longrightarrow> get_prop (itemToSave demo_env 2 k extractedData) (js ''TicketId'') =
                Some (JStr (js ''fallback-'' @ k @ js ''-'' @ show_nat (Date_now demo_env 2 42)))"
    by auto
  from k d have k': "k = js ''noid.pdf''" by simp
  from g b have p': "pdfBuffer = [37, 80, 68, 70, 66]"
    by (auto simp add: k' demo_store(2))
  have n: "Date_now demo_env i l = 1700000000000 + i" for i l
    by (simp add: demo_env_def)
  from e have "\<not> truthy_opt (get_prop extractedData (js ''invoiceId''))"
    by (auto simp add: k' p' demo_extraction_without_id get_prop_def truthy_opt_def)
  with t have "get_prop (itemToSave demo_env 2 k extractedData) (js ''TicketId'')
       = Some (JStr (js ''fallback-'' @ js ''noid.pdf'' @ js ''-'' @ show_nat 1700000000002))"
    by (simp add: k' n)
  with pr ok w show "\<exists>outcome tr item.
       process_record demo_env 2 ?r = Inr (outcome, tr)
     \<and> get_prop outcome (js ''success'') = Some (JBool True)
     \<and> dynamo_puts tr = [item]
     \<and> get_prop item (js ''TicketId'')
          = Some (JStr (js ''fallback-'' @ js ''noid.pdf'' @ js ''-'' @ show_nat 1700000000002))"
    by (intro exI [of _ outcome] exI [of _ tr] exI [of _ "itemToSave demo_env 2 k extractedData"])
       simp
qed

text \<open>Claim C3 on the second record of the example event, whose object is missing from the
  store.\<close>

theorem error_record_attempted_witness:
  "decodeURIComponent (plus_to_space (js ''missing.pdf'')) = Some (js ''missing.pdf'')
   \<and> s3_getObject demo_env (js ''inbox'') (js ''missing.pdf'') =
       Inl (JsError (js ''NoSuchKey'') (js ''The specified key does not exist.'') None)
   \<and> (\<exists>outcome tr errorRecord.
         process_record demo_env 1 \<lparr>bucket_name = js ''inbox'', object_key = js ''missing.pdf''\<rparr>
           = Inr (outcome, tr)
       \<and> dynamo_puts tr = [errorRecord]
       \<and> get_prop errorRecord (js ''TicketId'')
            = Some (JStr (js ''error-'' @ js ''missing.pdf'' @ js ''-'' @ show_nat 1700000000001))
       \<and> get_prop errorRecord (js ''Status'') = Some (JStr (js ''Error-ProcessingFailed''))
       \<and> get_prop errorRecord (js ''ErrorDetails'')
            = Some (JStr (js ''The specified key does not exist.''))
       \<and> get_prop errorRecord (js ''ErrorStack'') = Some JNull
       \<and> get_prop outcome (js ''success'') = Some (JBool False))"
proof -
  let ?r = "\<lparr>bucket_name = js ''inbox'', object_key = js ''missing.pdf''\<rparr>"
  let ?e = "JsError (js ''NoSuchKey'') (js ''The specified key does not exist.'') None"
  have d: "decodeURIComponent (plus_to_space (object_key ?r)) = Some (js ''missing.pdf'')"
    by (simp add: demo_keys)
  have g: "s3_getObject demo_env (bucket_name ?r) (js ''missing.pdf'') = Inl ?e"
    by (simp add: demo_store)
  then have h: "(\<exists>e. s3_getObject demo_env (bucket_name ?r) (js ''missing.pdf'') = Inl e)
       \<or> (\<exists>obj. s3_getObject demo_env (bucket_name ?r) (js ''missing.pdf'') = Inr obj
             \<and> Body obj = NotBuffer)
       \<or> (\<exists>obj pdfBuffer e. s3_getObject demo_env (bucket_name ?r) (js ''missing.pdf'') = Inr obj
            \<and> Body obj = Buffer pdfBuffer
            \<and> fst (processPDFWithGemini demo_env (Date_now demo_env 1) pdfBuffer
                      (Some (bucket_name ?r)) (Some (js ''missing.pdf''))) = Inl e)"
    by simp
  have n: "Date_now demo_env i l = 1700000000000 + i" for i l
    by (simp add: demo_env_def)
  from error_record_attempted [where i = 1, OF d h]
  obtain err s3ObjectData outcome tr where
    t: "fst (record_try demo_env 1 (bucket_name ?r) (js ''missing.pdf'')) = Inl err"
    and pr: "process_record demo_env 1 ?r = Inr (outcome, tr)"
    and w: "dynamo_puts tr = [error_record demo_env 1 (bucket_name ?r) (js ''missing.pdf'') err s3ObjectData
                        (js ''error-'' @ js ''missing.pdf'' @ js ''-'' @ show_nat (Date_now demo_env 1 54))]"
    and f: "get_prop outcome (js ''success'') = Some (JBool False)"
    by auto
  from t have err: "err = ?e"
    by (simp add: record_try_fetch_failed [OF demo_store(3)])
  let ?rec = "error_record demo_env 1 (bucket_name ?r) (js ''missing.pdf'') err s3ObjectData
                        (js ''error-'' @ js ''missing.pdf'' @ js ''-'' @ show_nat (Date_now demo_env 1 54))"
  have fields: "get_prop ?rec (js ''TicketId'')
            = Some (JStr (js ''error-'' @ js ''missing.pdf'' @ js ''-'' @ show_nat 1700000000001))"
    "get_prop ?rec (js ''Status'') = Some (JStr (js ''Error-ProcessingFailed''))"
    "get_prop ?rec (js ''ErrorDetails'') = Some (JStr (js ''The specified key does not exist.''))"
    "get_prop ?rec (js ''ErrorStack'') = Some JNull"
    by (simp_all add: error_record_fields err n)
  have "\<exists>outcome tr errorRecord.
         process_record demo_env 1 ?r = Inr (outcome, tr)
       \<and> dynamo_puts tr = [errorRecord]
       \<and> get_prop errorRecord (js ''TicketId'')
            = Some (JStr (js ''error-'' @ js ''missing.pdf'' @ js ''-'' @ show_nat 1700000000001))
       \<and> get_prop errorRecord (js ''Status'') = Some (JStr (js ''Error-ProcessingFailed''))
       \<and> get_prop errorRecord (js ''ErrorDetails'')
            = Some (JStr (js ''The specified key does not exist.''))
       \<and> get_prop errorRecord (js ''ErrorStack'') = Some JNull
       \<and> get_prop outcome (js ''success'') = Some (JBool False)"
    apply (rule exI [of _ outcome])
    apply (rule exI [of _ tr])
    apply (rule exI [of _ ?rec])
    apply (intro conjI)
    apply (rule pr w fields f)+
    done
  with demo_keys(2) demo_store(3) show ?thesis by (intro conjI)
qed

subsection \<open>Query Service\<close>

lemma api_try_response:
  assumes "fst (api_try env event) = Inr response"
  shows "\<exists>code b. response = createResponse env code b \<and> code \<in> {200, 400, 404}"
proof (cases "ticketId_param event")
  case (Some ticketId)
  show ?thesis
  proof (cases "db_get env ticketId")
    case (Inl e)
    with Some assms show ?thesis by (simp add: api_try_def Let_def)
  next
    case (Inr item)
    show ?thesis
    proof (cases item)
      case None
      with Some Inr assms have "response = createResponse env 404
          (JObj [(js ''error'', JStr (js ''Invoice with TicketId '' @ ticketId @ js '' not found.''))])"
        by (simp add: api_try_def truthy_opt_def Let_def)
      then show ?thesis by blast
    next
      case it: (Some it)
      with Some Inr assms have "response = createResponse env 200 it
        \<or> response = createResponse env 404
          (JObj [(js ''error'', JStr (js ''Invoice with TicketId '' @ ticketId @ js '' not found.''))])"
        by (auto simp add: api_try_def Let_def split: if_splits)
      then show ?thesis by blast
    qed
  qed
next
  case None
  show ?thesis
  proof (cases "list_all_requested event")
    case False
    with None assms have "response = createResponse env 400
        (JObj [(js ''error'',
                JStr (js ''Invalid request path or parameters. Try /invoices/{ticketId} or /invoices?list=all''))])"
      by (simp add: api_try_def)
    then show ?thesis by blast
  next
    case True
    show ?thesis
    proof (cases "db_scan env")
      case (Inl e)
      with None True assms show ?thesis by (simp add: api_try_def Let_def)
    next
      case (Inr scanned)
      obtain Items Count where "scanned = (Items, Count)" by (cases scanned)
      with None True Inr assms have "response = createResponse env 200
                    (JObj [(js ''items'', JArr Items []),
                           (js ''count'', JNum (of_nat Count)),
                           (js ''message'',
                            JStr (js ''Full scan executed. Implement pagination for production.''))])"
        by (simp add: api_try_def Let_def)
      then show ?thesis by blast
    qed
  qed
qed

lemma createResponse_fields:
  "statusCode (createResponse env code b) = code"
  "body (createResponse env code b) = JSON_stringify env b"
  "headers (createResponse env code b) =
        [(js ''Content-Type'', js ''application/json''),
         (js ''Access-Control-Allow-Origin'', js ''*''),
         (js ''Access-Control-Allow-Methods'', js ''GET,OPTIONS''),
         (js ''Access-Control-Allow-Headers'',
          js ''Content-Type,X-Amz-Date,Authorization,X-Api-Key,X-Amz-Security-Token'')]"
  by (simp_all add: createResponse_def)

lemma api_handler_response:
  "\<exists>code b. fst (api_handler env event) = createResponse env code b
      \<and> code \<in> {200, 400, 404, 405, 500}"
proof (cases "httpMethod event = Some (js ''OPTIONS'')")
  case True
  then have "fst (api_handler env event) =
      createResponse env 200 (JObj [(js ''message'', JStr (js ''CORS preflight successful''))])"
    by (simp add: api_handler_def)
  then show ?thesis by blast
next
  case notOptions: False
  show ?thesis
  proof (cases "httpMethod event = Some (js ''GET'')")
    case False
    with notOptions have "fst (api_handler env event) =
        createResponse env 405
           (JObj [(js ''error'', JStr (js ''Unsupported method: '' @ method_text (httpMethod event)))])"
      by (simp add: api_handler_def)
    then show ?thesis by blast
  next
    case True
    obtain res tr where t: "api_try env event = (res, tr)" by (cases "api_try env event")
    show ?thesis
    proof (cases res)
      case (Inl error)
      with True t have "fst (api_handler env event) =
          createResponse env 500
                (JObj [(js ''error'', JStr (js ''Internal server error.'')),
                       (js ''details'', JStr (message error))])"
        by (simp add: api_handler_def)
      then show ?thesis by blast
    next
      case (Inr response)
      with True t have r: "fst (api_handler env event) = response"
        by (simp add: api_handler_def)
      from t Inr have "fst (api_try env event) = Inr response" by simp
      from api_try_response [OF this] r show ?thesis by auto
    qed
  qed
qed

text \<open>
  Claim C9. Whatever the event and the answers of the table, the response of the Query
  Service handler is a value of \<open>createResponse\<close> with one of the status codes 200, 400,
  404, 405 and 500: it carries the four fixed headers, and its body is the
  \<open>JSON.stringify\<close> of the body value.
\<close>

theorem api_handler_uniform_response:
  "\<exists>code b. fst (api_handler env event) = createResponse env code b
      \<and> code \<in> {200, 400, 404, 405, 500}
      \<and> statusCode (fst (api_handler env event)) = code
      \<and> body (fst (api_handler env event)) = JSON_stringify env b
      \<and> headers (fst (api_handler env event)) =
        [(js ''Content-Type'', js ''application/json''),
         (js ''Access-Control-Allow-Origin'', js ''*''),
         (js ''Access-Control-Allow-Methods'', js ''GET,OPTIONS''),
         (js ''Access-Control-Allow-Headers'',
          js ''Content-Type,X-Amz-Date,Authorization,X-Api-Key,X-Amz-Security-Token'')]"
proof -
  obtain code b where r: "fst (api_handler env event) = createResponse env code b"
    and c: "code \<in> {200, 400, 404, 405, 500}"
    using api_handler_response by blast
  show ?thesis
    apply (rule exI [of _ code])
    apply (rule exI [of _ b])
    apply (simp only: r createResponse_fields)
    using c apply simp
    done
qed

text \<open>
  Claim C5. For a \<open>GET\<close> request with a non-empty \<open>ticketId\<close> path parameter: when the
  table answers with no item, the response is 404 and its body is the serialized error
  object, which holds nothing but the \<open>error\<close> message; when the table answers with the
  record, the response is 200 and its body is the serialization of exactly that record.
  Either way the table is asked once, for that identifier.
\<close>

theorem lookup_by_id:
  assumes "httpMethod event = Some (js ''GET'')"
    and "pathParameters event = Some ps" and "map_of ps (js ''ticketId'') = Some ticketId"
    and "ticketId \<noteq> []"
  shows "(db_get env ticketId = Inr None \<longrightarrow>
            fst (api_handler env event) =
              createResponse env 404
                (JObj [(js ''error'', JStr (js ''Invoice with TicketId '' @ ticketId @ js '' not found.''))])
          \<and> statusCode (fst (api_handler env event)) = 404)
       \<and> (\<forall>fs. db_get env ticketId = Inr (Some (JObj fs)) \<longrightarrow>
            fst (api_handler env event) = createResponse env 200 (JObj fs)
          \<and> statusCode (fst (api_handler env event)) = 200
          \<and> body (fst (api_handler env event)) = JSON_stringify env (JObj fs))
       \<and> ((\<exists>item. db_get env ticketId = Inr item) \<longrightarrow>
            snd (api_handler env event) =
              [ConsoleLog ''API Gateway event received:'', ConsoleLog ''Fetching invoice by TicketId:'',
               DynamoGet ticketId])"
proof -
  have m: "httpMethod event \<noteq> Some (js ''OPTIONS'')"
    using assms(1) by simp
  have p: "ticketId_param event = Some ticketId"
    using assms(2-4) by (simp add: ticketId_param_def)
  show ?thesis
    using assms(1) m p
    by (auto simp add: api_handler_def api_try_def truthy_opt_def createResponse_fields Let_def split: option.splits)
qed

text \<open>Claim C5 on the example table: the lookup of \<open>INV-42\<close>, which it holds, and of
  \<open>INV-7\<close>, which it does not hold.\<close>

theorem lookup_by_id_witness:
  \<open>httpMethod (demo_lookup ''INV-42'') = Some (js ''GET'')
   \<and> pathParameters (demo_lookup ''INV-42'') = Some [(js ''ticketId'', js ''INV-42'')]
   \<and> map_of [(js ''ticketId'', js ''INV-42'')] (js ''ticketId'') = Some (js ''INV-42'')
   \<and> js ''INV-42'' \<noteq> []
   \<and> db_get demo_api_env (js ''INV-42'') = Inr (Some demo_item)
   \<and> fst (api_handler demo_api_env (demo_lookup ''INV-42'')) = createResponse demo_api_env 200 demo_item
   \<and> body (fst (api_handler demo_api_env (demo_lookup ''INV-42'')))
        = js ''{"TicketId":"INV-42","grandTotal":100}''
   \<and> db_get demo_api_env (js ''INV-7'') = Inr None
   \<and> statusCode (fst (api_handler demo_api_env (demo_lookup ''INV-7''))) = 404
   \<and> fst (api_handler demo_api_env (demo_lookup ''INV-7'')) =
        createResponse demo_api_env 404
          (JObj [(js ''error'', JStr (js ''Invoice with TicketId '' @ js ''INV-7'' @ js '' not found.''))])\<close>
proof -
  have h1: "httpMethod (demo_lookup t) = Some (js ''GET'')" for t
    by (simp add: demo_lookup_def)
  have h2: "pathParameters (demo_lookup t) = Some [(js ''ticketId'', js t)]" for t
    by (simp add: demo_lookup_def)
  have h3: "map_of [(js ''ticketId'', js t)] (js ''ticketId'') = Some (js t)" for t
    by simp
  have g1: "db_get demo_api_env (js ''INV-42'') = Inr (Some demo_item)"
    by (simp add: demo_api_env_def)
  have g2: "db_get demo_api_env (js ''INV-7'') = Inr None"
    by (simp add: demo_api_env_def)
  have n1: "js ''INV-42'' \<noteq> []" and n2: "js ''INV-7'' \<noteq> []"
    by simp_all
  have d: "demo_item = JObj [(js ''TicketId'', JStr (js ''INV-42'')), (js ''grandTotal'', JNum 100)]"
    by (simp add: demo_item_def)
  note found = lookup_by_id [OF h1 h2 h3 n1, of demo_api_env, THEN conjunct2, THEN conjunct1,
      rule_format, OF g1 [unfolded d]]
  have a: "fst (api_handler demo_api_env (demo_lookup ''INV-42'')) = createResponse demo_api_env 200 demo_item"
    unfolding d by (rule found [THEN conjunct1])
  have b: "body (fst (api_handler demo_api_env (demo_lookup ''INV-42''))) = JSON_stringify demo_api_env demo_item"
    unfolding d by (rule found [THEN conjunct2, THEN conjunct2])
  have s: \<open>JSON_stringify demo_api_env demo_item = js ''{"TicketId":"INV-42","grandTotal":100}''\<close>
    by (simp add: demo_api_env_def demo_item_def js_def show_nat.simps)
  note absent = lookup_by_id [OF h1 h2 h3 n2, of demo_api_env, THEN conjunct1, rule_format, OF g2]
  have c: "statusCode (fst (api_handler demo_api_env (demo_lookup ''INV-7''))) = 404"
    by (rule absent [THEN conjunct2])
  have e: "fst (api_handler demo_api_env (demo_lookup ''INV-7'')) =
        createResponse demo_api_env 404
          (JObj [(js ''error'', JStr (js ''Invoice with TicketId '' @ js ''INV-7'' @ js '' not found.''))])"
    by (rule absent [THEN conjunct1])
  from b s have b': \<open>body (fst (api_handler demo_api_env (demo_lookup ''INV-42'')))
        = js ''{"TicketId":"INV-42","grandTotal":100}''\<close>
    by simp
  show ?thesis
    by (intro conjI) (rule h1 h2 h3 n1 g1 a b' g2 c e)+
qed

text \<open>Claim C9 on a \<open>POST\<close> request and on a lookup whose table read fails.\<close>

theorem api_handler_uniform_response_witness:
  "statusCode (fst (api_handler demo_api_env
      \<lparr>httpMethod = Some (js ''POST''), path = Some (js ''/invoices''), pathParameters = None,
        queryStringParameters = None\<rparr>)) = 405
   \<and> headers (fst (api_handler demo_api_env
      \<lparr>httpMethod = Some (js ''POST''), path = Some (js ''/invoices''), pathParameters = None,
        queryStringParameters = None\<rparr>)) =
        [(js ''Content-Type'', js ''application/json''),
         (js ''Access-Control-Allow-Origin'', js ''*''),
         (js ''Access-Control-Allow-Methods'', js ''GET,OPTIONS''),
         (js ''Access-Control-Allow-Headers'',
          js ''Content-Type,X-Amz-Date,Authorization,X-Api-Key,X-Amz-Security-Token'')]
   \<and> statusCode (fst (api_handler demo_api_env (demo_lookup ''broken''))) = 500
   \<and> headers (fst (api_handler demo_api_env (demo_lookup ''broken''))) =
        [(js ''Content-Type'', js ''application/json''),
         (js ''Access-Control-Allow-Origin'', js ''*''),
         (js ''Access-Control-Allow-Methods'', js ''GET,OPTIONS''),
         (js ''Access-Control-Allow-Headers'',
          js ''Content-Type,X-Amz-Date,Authorization,X-Api-Key,X-Amz-Security-Token'')]"
proof -
  let ?post = "\<lparr>httpMethod = Some (js ''POST''), path = Some (js ''/invoices''), pathParameters = None,
        queryStringParameters = None\<rparr>"
  have p: "statusCode (fst (api_handler demo_api_env ?post)) = 405"
    by (simp add: api_handler_def createResponse_fields)
  have b: "statusCode (fst (api_handler demo_api_env (demo_lookup ''broken''))) = 500"
    by (simp add: api_handler_def api_try_def ticketId_param_def demo_lookup_def demo_api_env_def
        createResponse_fields Let_def)
  from api_handler_uniform_response [of demo_api_env ?post]
  have hp: "headers (fst (api_handler demo_api_env ?post)) =
        [(js ''Content-Type'', js ''application/json''),
         (js ''Access-Control-Allow-Origin'', js ''*''),
         (js ''Access-Control-Allow-Methods'', js ''GET,OPTIONS''),
         (js ''Access-Control-Allow-Headers'',
          js ''Content-Type,X-Amz-Date,Authorization,X-Api-Key,X-Amz-Security-Token'')]"
    by (elim exE conjE)
  from api_handler_uniform_response [of demo_api_env "demo_lookup ''broken''"]
  have hb: "headers (fst (api_handler demo_api_env (demo_lookup ''broken''))) =
        [(js ''Content-Type'', js ''application/json''),
         (js ''Access-Control-Allow-Origin'', js ''*''),
         (js ''Access-Control-Allow-Methods'', js ''GET,OPTIONS''),
         (js ''Access-Control-Allow-Headers'',
          js ''Content-Type,X-Amz-Date,Authorization,X-Api-Key,X-Amz-Security-Token'')]"
    by (elim exE conjE)
  show ?thesis
    by (intro conjI) (rule p hp b hb)+
qed

subsection \<open>Mail Ingestor\<close>

lemma bucket_configured: "ATTACHMENT_BUCKET_NAME env \<noteq> []"
  by (simp add: ATTACHMENT_BUCKET_NAME_def split: option.splits)

lemma first_record_only:
  "record_messageId (r # rs) = record_messageId [r]"
  "record_source (r # rs) = record_source [r]"
  by (simp_all add: record_messageId_def record_source_def)

lemma ingest_handler_cong:
  assumes "record_messageId A = record_messageId B" and "record_source A = record_source B"
  shows "ingest_handler env A = ingest_handler env B"
  unfolding ingest_handler_def assms by (rule refl)

lemma storage_calls_append: "storage_calls (a @ b) = storage_calls a @ storage_calls b"
  by (induction a rule: storage_calls.induct) simp_all

lemma put_keys_append: "put_keys (a @ b) = put_keys a @ put_keys b"
  by (induction a rule: put_keys.induct) simp_all

lemma stored_keys_append: "stored_keys env (a @ b) = stored_keys env a @ stored_keys env b"
  by (induction a rule: stored_keys.induct) simp_all

lemma skipped_append: "skipped (a @ b) = skipped a + skipped b"
  by (induction a rule: skipped.induct) simp_all

text \<open>
  The handler looks at the first record only: further records of the event change
  neither its result nor its effects. When one of the tests of lines 23 and 57 rejects
  that record (no non-empty SES message id, or no S3 part with a bucket and an object),
  the handler returns a response of status 400 and makes no storage read or write.
\<close>

lemma ingest_first_record_only:
  "ingest_handler env (r # rs) = ingest_handler env [r]
   \<and> (record_messageId Records = None \<or> record_source Records = None \<longrightarrow>
        (\<exists>response tr. ingest_handler env Records = Inr (response, tr)
            \<and> statusCode response = 400 \<and> storage_calls tr = []))"
proof (rule conjI)
  show "ingest_handler env (r # rs) = ingest_handler env [r]"
    by (rule ingest_handler_cong) (rule first_record_only)+
next
  show "record_messageId Records = None \<or> record_source Records = None \<longrightarrow>
        (\<exists>response tr. ingest_handler env Records = Inr (response, tr)
            \<and> statusCode response = 400 \<and> storage_calls tr = [])"
  proof (cases "record_messageId Records")
    case None
    then show ?thesis
      by (simp add: ingest_handler_def bucket_configured Let_def)
  next
    case (Some messageId)
    then show ?thesis
      by (simp add: ingest_handler_def bucket_configured Let_def)
  qed
qed

lemma Promise_all_some_rejected:
  assumes "\<not> (\<forall>p \<in> set ps. \<exists>x. p = Inr x)"
  shows "\<exists>e. Promise_all ps = Inl e"
  using assms
proof (induction ps)
  case Nil
  then show ?case by simp
next
  case (Cons q qs)
  show ?case
  proof (cases q)
    case (Inl e)
    then show ?thesis by simp
  next
    case (Inr x)
    with Cons.prems have "\<not> (\<forall>p \<in> set qs. \<exists>x. p = Inr x)" by simp
    with Cons.IH obtain e where "Promise_all qs = Inl e" by blast
    with Inr show ?thesis by simp
  qed
qed

lemma stored_keys_length: "length (stored_keys env tr) \<le> length (put_keys tr)"
  by (induction env tr rule: stored_keys.induct) auto

lemma upload_loop_Cons:
  "upload_loop env messageId i (a # rest) =
     (if is_pdf a then
        ((case putObject env (ATTACHMENT_BUCKET_NAME env) (attachmentKey env messageId i a)
                 (content_bytes a) (contentType a) of
            None \<Rightarrow> Inr ()
          | Some e \<Rightarrow> Inl e) # fst (upload_loop env messageId (Suc i) rest),
         [ConsoleLog ''Uploading PDF attachment:'',
          S3PutObject (ATTACHMENT_BUCKET_NAME env) (attachmentKey env messageId i a)
            (content_bytes a) (contentType a)] @ snd (upload_loop env messageId (Suc i) rest))
      else (fst (upload_loop env messageId (Suc i) rest),
            ConsoleLog ''Skipping non-PDF attachment:'' # snd (upload_loop env messageId (Suc i) rest)))"
  by (simp split: prod.splits)

lemma upload_loop_put_keys:
  "put_keys (snd (upload_loop env messageId i atts)) =
     map (\<lambda>(j, a). attachmentKey env messageId j a) (filter (\<lambda>(j, a). is_pdf a) (enumerate i atts))"
  by (induction atts arbitrary: i) (simp_all add: upload_loop_Cons del: upload_loop.simps(2))

lemma upload_loop_skipped:
  "skipped (snd (upload_loop env messageId i atts)) = length (filter (\<lambda>a. \<not> is_pdf a) atts)"
  by (induction atts arbitrary: i) (simp_all add: upload_loop_Cons del: upload_loop.simps(2))

lemma upload_loop_length:
  "length (fst (upload_loop env messageId i atts)) = length (filter is_pdf atts)"
  by (induction atts arbitrary: i) (simp_all add: upload_loop_Cons del: upload_loop.simps(2))

lemma filter_enumerate_length:
  "length (filter (\<lambda>(j, a). P a) (enumerate i xs)) = length (filter P xs)"
  by (induction xs arbitrary: i) simp_all

lemma upload_loop_accepted:
  "stored_keys env (snd (upload_loop env messageId i atts)) = put_keys (snd (upload_loop env messageId i atts))
     \<longleftrightarrow> (\<forall>p \<in> set (fst (upload_loop env messageId i atts)). \<exists>u. p = Inr u)"
proof (induction atts arbitrary: i)
  case Nil
  show ?case by simp
next
  case (Cons a rest)
  obtain ups tr where u: "upload_loop env messageId (Suc i) rest = (ups, tr)"
    by (cases "upload_loop env messageId (Suc i) rest")
  from Cons.IH [of "Suc i"] u
  have ih: "stored_keys env tr = put_keys tr \<longleftrightarrow> (\<forall>p \<in> set ups. \<exists>u. p = Inr u)"
    by simp
  show ?case
  proof (cases "is_pdf a")
    case False
    with u ih show ?thesis by simp
  next
    case True
    show ?thesis
    proof (cases "putObject env (ATTACHMENT_BUCKET_NAME env) (attachmentKey env messageId i a)
                     (content_bytes a) (contentType a)")
      case None
      with True u ih show ?thesis by simp
    next
      case (Some e)
      have "stored_keys env tr \<noteq> attachmentKey env messageId i a # put_keys tr"
      proof
        assume "stored_keys env tr = attachmentKey env messageId i a # put_keys tr"
        then have "length (stored_keys env tr) = Suc (length (put_keys tr))" by simp
        with stored_keys_length [of env tr] show False by simp
      qed
      with True Some u show ?thesis by simp
    qed
  qed
qed

lemma Promise_all_settled_resolved:
  assumes "Promise_all ps = Inr xs"
  shows "Promise_all_settled first ps = Inr xs"
  using assms by (simp add: Promise_all_settled_def)

lemma Promise_all_settled_rejected:
  assumes "Promise_all ps = Inl e"
  shows "\<exists>e'. Promise_all_settled first ps = Inl e'"
  using assms by (simp add: Promise_all_settled_def)

text \<open>The rejection of \<open>Promise.all\<close> is one of the rejections of the requests.\<close>

lemma rejections_Nil_iff: "rejections ps = [] \<longleftrightarrow> (\<forall>p \<in> set ps. \<exists>x. p = Inr x)"
  by (induction ps) (auto simp add: rejections_def split: sum.splits)

lemma Promise_all_settled_member:
  assumes "Promise_all ps = Inl e"
  shows "\<exists>e' \<in> set (rejections ps). Promise_all_settled first ps = Inl e'"
proof -
  have "rejections ps \<noteq> []"
  proof
    assume "rejections ps = []"
    then have "\<forall>p \<in> set ps. \<exists>x. p = Inr x" by (simp only: rejections_Nil_iff)
    then obtain xs where "Promise_all ps = Inr xs" using Promise_all_resolved by blast
    with assms show False by simp
  qed
  then have "rejections ps ! (first (length (rejections ps)) mod length (rejections ps))
      \<in> set (rejections ps)"
    by simp
  with assms show ?thesis by (simp add: Promise_all_settled_def)
qed

lemma ingest_try_parsed:
  assumes "getObject env sourceBucket sourceKey = Inr s3Object" and "Body s3Object = Buffer bytes"
    and "simpleParser env (toString_utf8 env bytes) = Inr parsedEmail"
    and "from_header parsedEmail \<noteq> None" and "to_header parsedEmail \<noteq> None"
  shows "\<exists>res tr. ingest_try env messageId sourceBucket sourceKey = (res, tr)
     \<and> put_keys tr = put_keys (snd (upload_loop env messageId 0 (attachments parsedEmail)))
     \<and> stored_keys env tr = stored_keys env (snd (upload_loop env messageId 0 (attachments parsedEmail)))
     \<and> skipped tr = skipped (snd (upload_loop env messageId 0 (attachments parsedEmail)))
     \<and> ((\<forall>p \<in> set (fst (upload_loop env messageId 0 (attachments parsedEmail))). \<exists>u. p = Inr u) \<longrightarrow>
           res = Inr \<lparr>statusCode = 200,
                      body = js ''Successfully processed email '' @ messageId @ js ''. ''
                             @ show_nat (length (fst (upload_loop env messageId 0 (attachments parsedEmail))))
                             @ js '' PDF(s) uploaded.''\<rparr>)
     \<and> (\<not> (\<forall>p \<in> set (fst (upload_loop env messageId 0 (attachments parsedEmail))). \<exists>u. p = Inr u) \<longrightarrow>
           (\<exists>e. res = Inl e))"
proof -
  obtain ups tr3 where u: "upload_loop env messageId 0 (attachments parsedEmail) = (ups, tr3)"
    by (cases "upload_loop env messageId 0 (attachments parsedEmail)")
  show ?thesis
  proof (cases "\<forall>p \<in> set ups. \<exists>u. p = Inr u")
    case True
    then obtain xs where "Promise_all ups = Inr xs"
      using Promise_all_resolved by blast
    then have "Promise_all_settled (first_rejected env) ups = Inr xs"
      by (rule Promise_all_settled_resolved)
    with assms u True show ?thesis
      by (auto simp add: ingest_try_def Let_def put_keys_append stored_keys_append skipped_append)
  next
    case False
    then obtain e' where "Promise_all ups = Inl e'"
      using Promise_all_some_rejected by blast
    then obtain e where "Promise_all_settled (first_rejected env) ups = Inl e"
      using Promise_all_settled_rejected by blast
    moreover from False have "ups \<noteq> []" by auto
    ultimately show ?thesis
      using assms u False
      by (auto simp add: ingest_try_def Let_def put_keys_append stored_keys_append skipped_append)
  qed
qed

lemma upload_loop_stored:
  "stored_keys env (snd (upload_loop env messageId i atts)) =
     map (\<lambda>(j, a). attachmentKey env messageId j a)
       (filter (write_accepted env messageId) (filter (\<lambda>(j, a). is_pdf a) (enumerate i atts)))"
  by (induction atts arbitrary: i)
     (simp_all add: upload_loop_Cons write_accepted_def del: upload_loop.simps(2))

lemma upload_loop_all_accepted:
  "(\<forall>p \<in> set (fst (upload_loop env messageId i atts)). \<exists>u. p = Inr u)
     \<longleftrightarrow> list_all (write_accepted env messageId) (filter (\<lambda>(j, a). is_pdf a) (enumerate i atts))"
  by (induction atts arbitrary: i)
     (auto simp add: upload_loop_Cons write_accepted_def simp del: upload_loop.simps(2)
        split: option.splits)

lemma ingest_handler_parsed:
  assumes "record_messageId Records = Some messageId"
    and "record_source Records = Some (sourceBucket, Some rawKey)"
    and "decodeURIComponent (plus_to_space rawKey) = Some sourceKey"
    and "getObject env sourceBucket sourceKey = Inr s3Object" and "Body s3Object = Buffer bytes"
    and "simpleParser env (toString_utf8 env bytes) = Inr parsedEmail"
    and "from_header parsedEmail \<noteq> None" and "to_header parsedEmail \<noteq> None"
  shows "\<exists>response tr. ingest_handler env Records = Inr (response, tr)
     \<and> put_keys tr =
          map (\<lambda>(i, a). js ''attachments/'' @ messageId @ js ''/''
                           @ sanitize (attachment_filename env messageId i a))
            (retained (attachments parsedEmail))
     \<and> length (put_keys tr) = length (filter is_pdf (attachments parsedEmail))
     \<and> skipped tr = length (filter (\<lambda>a. \<not> is_pdf a) (attachments parsedEmail))
     \<and> stored_keys env tr =
          map (\<lambda>(i, a). js ''attachments/'' @ messageId @ js ''/''
                           @ sanitize (attachment_filename env messageId i a))
            (filter (write_accepted env messageId) (retained (attachments parsedEmail)))
     \<and> (list_all (write_accepted env messageId) (retained (attachments parsedEmail)) \<longrightarrow>
           response = \<lparr>statusCode = 200,
                       body = js ''Successfully processed email '' @ messageId @ js ''. ''
                              @ show_nat (length (filter is_pdf (attachments parsedEmail)))
                              @ js '' PDF(s) uploaded.''\<rparr>)
     \<and> (\<not> list_all (write_accepted env messageId) (retained (attachments parsedEmail)) \<longrightarrow>
           statusCode response = 500)"
proof -
  let ?loop = "upload_loop env messageId 0 (attachments parsedEmail)"
  let ?ok = "\<lparr>statusCode = 200,
              body = js ''Successfully processed email '' @ messageId @ js ''. ''
                     @ show_nat (length (filter is_pdf (attachments parsedEmail)))
                     @ js '' PDF(s) uploaded.''\<rparr>"
  obtain res tr0 where t: "ingest_try env messageId sourceBucket sourceKey = (res, tr0)"
    and pk: "put_keys tr0 = put_keys (snd ?loop)"
    and sk: "stored_keys env tr0 = stored_keys env (snd ?loop)"
    and sp: "skipped tr0 = skipped (snd ?loop)"
    and ok: "(\<forall>p \<in> set (fst ?loop). \<exists>u. p = Inr u) \<longrightarrow> res = Inr ?ok"
    and ko: "\<not> (\<forall>p \<in> set (fst ?loop). \<exists>u. p = Inr u) \<longrightarrow> (\<exists>e. res = Inl e)"
    using ingest_try_parsed [OF assms(4-8), of messageId]
    by (auto simp add: upload_loop_length)
  define response where "response = (case res of Inr r \<Rightarrow> r
      | Inl error \<Rightarrow> \<lparr>statusCode = 500, body = js ''Error processing email: '' @ message error\<rparr>)"
  define tr where "tr = [ConsoleLog ''SES Email Processor event received:'',
      ConsoleLog ''Processing email with Message ID:'', ConsoleLog ''Fetching raw email from''] @ tr0
      @ (case res of Inr r \<Rightarrow> [] | Inl error \<Rightarrow> [ConsoleError ''Error processing email''])"
  have h: "ingest_handler env Records = Inr (response, tr)"
    using assms(1-3) t
    by (simp add: ingest_handler_def bucket_configured Let_def response_def tr_def split: sum.splits)
  have pk': "put_keys tr = put_keys (snd ?loop)"
    by (simp add: tr_def put_keys_append pk split: sum.splits)
  have sk': "stored_keys env tr = stored_keys env (snd ?loop)"
    by (simp add: tr_def stored_keys_append sk split: sum.splits)
  have sp': "skipped tr = skipped (snd ?loop)"
    by (simp add: tr_def skipped_append sp split: sum.splits)
  have c1: "put_keys tr =
          map (\<lambda>(i, a). js ''attachments/'' @ messageId @ js ''/''
                           @ sanitize (attachment_filename env messageId i a))
            (retained (attachments parsedEmail))"
    by (simp add: pk' upload_loop_put_keys attachmentKey_def retained_def)
  have c2: "length (put_keys tr) = length (filter is_pdf (attachments parsedEmail))"
    by (simp add: pk' upload_loop_put_keys filter_enumerate_length)
  have c3: "skipped tr = length (filter (\<lambda>a. \<not> is_pdf a) (attachments parsedEmail))"
    by (simp add: sp' upload_loop_skipped)
  have c4: "stored_keys env tr =
          map (\<lambda>(i, a). js ''attachments/'' @ messageId @ js ''/''
                           @ sanitize (attachment_filename env messageId i a))
            (filter (write_accepted env messageId) (retained (attachments parsedEmail)))"
    by (simp add: sk' upload_loop_stored attachmentKey_def retained_def)
  have acc: "list_all (write_accepted env messageId) (retained (attachments parsedEmail))
      \<longleftrightarrow> (\<forall>p \<in> set (fst ?loop). \<exists>u. p = Inr u)"
    by (simp only: upload_loop_all_accepted retained_def)
  have c5: "list_all (write_accepted env messageId) (retained (attachments parsedEmail))
      \<longrightarrow> response = ?ok"
    using ok acc by (auto simp add: response_def)
  have c6: "\<not> list_all (write_accepted env messageId) (retained (attachments parsedEmail))
      \<longrightarrow> statusCode response = 500"
    using ko acc by (auto simp add: response_def)
  show ?thesis
    apply (rule exI [of _ response])
    apply (rule exI [of _ tr])
    apply (intro conjI)
    apply (rule h c1 c2 c3 c4 c5 c6)+
    done
qed

text \<open>
  Claim C6, as amended. When the event names the raw message, the message is fetched and
  parsed, and it has a \<open>From\<close> and a \<open>To\<close> header, the handler starts exactly one
  storage write per attachment that qualifies as PDF, in the order of the message,
  under the key \<open>attachments/<messageId>/<sanitized filename>\<close> (the filename being the
  declared one, or \<open>attachment-<messageId>-<timestamp>.pdf\<close> when there is none), and
  logs a skip for each other attachment: N writes and M skips. When the storage accepts
  every write, the N blobs are stored and the response is 200, reporting N uploads; when
  it rejects one, the response is 500.
\<close>

theorem ingest_uploads:
  assumes "record_messageId Records = Some messageId"
    and "record_source Records = Some (sourceBucket, Some rawKey)"
    and "decodeURIComponent (plus_to_space rawKey) = Some sourceKey"
    and "getObject env sourceBucket sourceKey = Inr s3Object" and "Body s3Object = Buffer bytes"
    and "simpleParser env (toString_utf8 env bytes) = Inr parsedEmail"
    and "from_header parsedEmail \<noteq> None" and "to_header parsedEmail \<noteq> None"
  shows "\<exists>response tr. ingest_handler env Records = Inr (response, tr)
     \<and> put_keys tr =
          map (\<lambda>(i, a). js ''attachments/'' @ messageId @ js ''/''
                           @ sanitize (attachment_filename env messageId i a))
            (retained (attachments parsedEmail))
     \<and> length (put_keys tr) = length (filter is_pdf (attachments parsedEmail))
     \<and> skipped tr = length (filter (\<lambda>a. \<not> is_pdf a) (attachments parsedEmail))
     \<and> stored_keys env tr =
          map (\<lambda>(i, a). js ''attachments/'' @ messageId @ js ''/''
                           @ sanitize (attachment_filename env messageId i a))
            (filter (write_accepted env messageId) (retained (attachments parsedEmail)))
     \<and> (list_all (write_accepted env messageId) (retained (attachments parsedEmail)) \<longrightarrow>
           response = \<lparr>statusCode = 200,
                       body = js ''Successfully processed email '' @ messageId @ js ''. ''
                              @ show_nat (length (filter is_pdf (attachments parsedEmail)))
                              @ js '' PDF(s) uploaded.''\<rparr>)
     \<and> (\<not> list_all (write_accepted env messageId) (retained (attachments parsedEmail)) \<longrightarrow>
           statusCode response = 500)"
  using assms by (rule ingest_handler_parsed)

lemma demo_mail_keys:
  "decodeURIComponent (plus_to_space (js ''M1.eml'')) = Some (js ''M1.eml'')"
  "decodeURIComponent (plus_to_space (js ''M2.eml'')) = Some (js ''M2.eml'')"
  "decodeURIComponent (plus_to_space (js ''M3.eml'')) = Some (js ''M3.eml'')"
  by (simp_all add: decodeURIComponent_def plus_to_space_def js_def)

lemma demo_ses_record_parts:
  "record_messageId [demo_ses_record mid k] = (if mid = [] then None else Some (js mid))"
  "record_source [demo_ses_record mid k] = Some (Some (js ''raw-mail''), Some (js k))"
  by (simp_all add: record_messageId_def record_source_def demo_ses_record_def)

lemma demo_bucket: "ATTACHMENT_BUCKET_NAME demo_ingest_env = js ''attachments-bucket''"
  by (simp add: ATTACHMENT_BUCKET_NAME_def demo_ingest_env_def)

lemma demo_M2_try:
  "ingest_try demo_ingest_env (js ''M2'') (Some (js ''raw-mail'')) (js ''M2.eml'') =
     (Inl (JsError (js ''SlowDown'') (js ''Please reduce your request rate.'') None),
      [S3GetObject (Some (js ''raw-mail'')) (js ''M2.eml''),
       ConsoleLog ''Email Subject:'', ConsoleLog ''From:'', ConsoleLog ''To:'',
       ConsoleLog ''Found attachment(s).'', ConsoleLog ''Uploading PDF attachment:'',
       S3PutObject (js ''attachments-bucket'') (js ''attachments/M2/full.pdf'') [37, 80, 68, 70]
         (js ''application/pdf'')])"
proof -
  have k: "attachmentKey demo_ingest_env (js ''M2'') 0
      \<lparr>contentType = js ''application/pdf'', filename = Some (js ''full.pdf''),
       content_bytes = [37, 80, 68, 70]\<rparr> = js ''attachments/M2/full.pdf''"
    by (simp add: attachmentKey_def attachment_filename_def sanitize_def safe_unit_def js_def)
  have g: "getObject demo_ingest_env (Some (js ''raw-mail'')) (js ''M2.eml'') =
      Inr \<lparr>Body = Buffer [77, 50], ContentLength = Some 2, ContentType = None\<rparr>"
    by (simp add: demo_ingest_env_def)
  have p: "simpleParser demo_ingest_env (toString_utf8 demo_ingest_env [77, 50]) =
      Inr \<lparr>from_header = Some (js ''billing@vendor.example''),
           to_header = Some (js ''invoices@customer.example''),
           attachments =
             [\<lparr>contentType = js ''application/pdf'', filename = Some (js ''full.pdf''),
                content_bytes = [37, 80, 68, 70]\<rparr>]\<rparr>"
    by (simp add: demo_ingest_env_def demo_mail_def)
  have w: "putObject demo_ingest_env (js ''attachments-bucket'') (js ''attachments/M2/full.pdf'')
      [37, 80, 68, 70] (js ''application/pdf'') =
      Some (JsError (js ''SlowDown'') (js ''Please reduce your request rate.'') None)"
    by (simp add: demo_ingest_env_def)
  show ?thesis
    by (simp add: ingest_try_def g p Let_def is_pdf_def k w demo_bucket
        Promise_all_settled_def rejections_def)
qed

text \<open>
  The handler on the event for \<open>M2.eml\<close>: the message has one qualifying attachment,
  \<open>full.pdf\<close>, whose write the storage rejects.
\<close>

lemma demo_M2_handler:
  "ingest_handler demo_ingest_env [demo_ses_record ''M2'' ''M2.eml''] =
     Inr (\<lparr>statusCode = 500,
           body = js ''Error processing email: Please reduce your request rate.''\<rparr>,
          [ConsoleLog ''SES Email Processor event received:'',
           ConsoleLog ''Processing email with Message ID:'',
           ConsoleLog ''Fetching raw email from'',
           S3GetObject (Some (js ''raw-mail'')) (js ''M2.eml''),
           ConsoleLog ''Email Subject:'', ConsoleLog ''From:'', ConsoleLog ''To:'',
           ConsoleLog ''Found attachment(s).'', ConsoleLog ''Uploading PDF attachment:'',
           S3PutObject (js ''attachments-bucket'') (js ''attachments/M2/full.pdf'') [37, 80, 68, 70]
             (js ''application/pdf''),
           ConsoleError ''Error processing email''])"
  by (simp add: ingest_handler_def bucket_configured demo_ses_record_parts demo_mail_keys
      demo_M2_try Let_def js_append [symmetric])

text \<open>
  Claim C6 as stated fails on the raw message \<open>M2.eml\<close>, which has one qualifying
  attachment and no other: the storage rejects the write of \<open>attachments/M2/full.pdf\<close>,
  the handler answers with status 500, and no blob is stored.
\<close>

theorem ingest_rejected_write_counterexample:
  "map filename (filter is_pdf (attachments (projr (demo_mail [77, 50])))) = [Some (js ''full.pdf'')]
   \<and> statusCode (fst (projr (ingest_handler demo_ingest_env [demo_ses_record ''M2'' ''M2.eml'']))) = 500
   \<and> put_keys (snd (projr (ingest_handler demo_ingest_env [demo_ses_record ''M2'' ''M2.eml''])))
       = [js ''attachments/M2/full.pdf'']
   \<and> stored_keys demo_ingest_env
       (snd (projr (ingest_handler demo_ingest_env [demo_ses_record ''M2'' ''M2.eml'']))) = []"
proof (intro conjI)
  show "map filename (filter is_pdf (attachments (projr (demo_mail [77, 50])))) = [Some (js ''full.pdf'')]"
    by (simp add: demo_mail_def is_pdf_def)
  show "statusCode (fst (projr (ingest_handler demo_ingest_env [demo_ses_record ''M2'' ''M2.eml'']))) = 500"
    by (simp add: demo_M2_handler)
  show "put_keys (snd (projr (ingest_handler demo_ingest_env [demo_ses_record ''M2'' ''M2.eml''])))
       = [js ''attachments/M2/full.pdf'']"
    by (simp add: demo_M2_handler)
  show "stored_keys demo_ingest_env
       (snd (projr (ingest_handler demo_ingest_env [demo_ses_record ''M2'' ''M2.eml'']))) = []"
    by (simp add: demo_M2_handler) (simp add: demo_ingest_env_def)
qed

text \<open>
  A message without a \<open>To\<close> header: reading \<open>parsedEmail.to.text\<close> for the log raises a
  \<open>TypeError\<close> before the loop over the attachments, so the handler answers with
  status 500 and starts no write, although the message has a PDF attachment.
\<close>

lemma missing_To_header_fails:
  "map_sum id (\<lambda>(response, tr). (statusCode response, put_keys tr))
     (ingest_handler demo_ingest_env [demo_ses_record ''M3'' ''M3.eml'']) = Inr (500, [])"
proof -
  have g: "getObject demo_ingest_env (Some (js ''raw-mail'')) (js ''M3.eml'') =
      Inr \<lparr>Body = Buffer [77, 51], ContentLength = Some 2, ContentType = None\<rparr>"
    by (simp add: demo_ingest_env_def)
  have p: "simpleParser demo_ingest_env (toString_utf8 demo_ingest_env [77, 51]) =
      Inr \<lparr>from_header = Some (js ''billing@vendor.example''),
           to_header = None,
           attachments =
             [\<lparr>contentType = js ''application/pdf'', filename = Some (js ''invoice.pdf''),
                content_bytes = [37, 80, 68, 70]\<rparr>]\<rparr>"
    by (simp add: demo_ingest_env_def demo_mail_def)
  show ?thesis
    by (simp add: ingest_handler_def bucket_configured demo_ses_record_parts demo_mail_keys
        ingest_try_def g p Let_def)
qed

text \<open>
  The theorem on the raw message \<open>M1.eml\<close>: three of its four attachments qualify, the
  storage accepts the three writes, and the one other attachment is skipped.
\<close>

theorem ingest_uploads_witness:
  "\<exists>response tr.
     ingest_handler demo_ingest_env [demo_ses_record ''M1'' ''M1.eml''] = Inr (response, tr)
     \<and> put_keys tr = [js ''attachments/M1/invoice.pdf'',
                      js ''attachments/M1/attachment-M1-1700000000002.pdf'',
                      js ''attachments/M1/Scan_1.PDF'']
     \<and> stored_keys demo_ingest_env tr = put_keys tr
     \<and> skipped tr = Suc 0
     \<and> response = \<lparr>statusCode = 200,
                    body = js ''Successfully processed email M1. 3 PDF(s) uploaded.''\<rparr>"
proof -
  let ?a0 = "\<lparr>contentType = js ''application/pdf'', filename = Some (js ''invoice.pdf''),
              content_bytes = [37, 80, 68, 70]\<rparr>"
  let ?a1 = "\<lparr>contentType = js ''image/png'', filename = Some (js ''logo.png''),
              content_bytes = [137, 80, 78, 71]\<rparr>"
  let ?a2 = "\<lparr>contentType = js ''application/pdf'', filename = None,
              content_bytes = [37, 80, 68, 70, 45]\<rparr>"
  let ?a3 = "\<lparr>contentType = js ''application/octet-stream'', filename = Some (js ''Scan 1.PDF''),
              content_bytes = [37, 80, 68, 70, 46]\<rparr>"
  let ?mail = "\<lparr>from_header = Some (js ''billing@vendor.example''),
                to_header = Some (js ''invoices@customer.example''),
                attachments = [?a0, ?a1, ?a2, ?a3]\<rparr>"
  let ?obj = "\<lparr>Body = Buffer [77, 49], ContentLength = Some 2, ContentType = None\<rparr>"
  have h1: "record_messageId [demo_ses_record ''M1'' ''M1.eml''] = Some (js ''M1'')"
    by (simp add: demo_ses_record_parts)
  have h2: "record_source [demo_ses_record ''M1'' ''M1.eml''] = Some (Some (js ''raw-mail''), Some (js ''M1.eml''))"
    by (simp add: demo_ses_record_parts)
  have h4: "getObject demo_ingest_env (Some (js ''raw-mail'')) (js ''M1.eml'') = Inr ?obj"
    by (simp add: demo_ingest_env_def)
  have h5: "Body ?obj = Buffer [77, 49]"
    by simp
  have h6: "simpleParser demo_ingest_env (toString_utf8 demo_ingest_env [77, 49]) = Inr ?mail"
    by (simp add: demo_ingest_env_def demo_mail_def)
  have h7: "from_header ?mail \<noteq> None" and h8: "to_header ?mail \<noteq> None"
    by simp_all
  have p: "is_pdf ?a0" "\<not> is_pdf ?a1" "is_pdf ?a2" "is_pdf ?a3"
    by (simp_all add: is_pdf_def toLowerCase_def suffix_to_prefix js_def)
  have r: "retained (attachments ?mail) = [(0, ?a0), (2, ?a2), (3, ?a3)]"
    by (simp add: retained_def p enumerate_simps)
  have f: "filter is_pdf (attachments ?mail) = [?a0, ?a2, ?a3]"
      "filter (\<lambda>a. \<not> is_pdf a) (attachments ?mail) = [?a1]"
    by (simp_all add: p)
  have k: "js ''attachments/'' @ js ''M1'' @ js ''/''
        @ sanitize (attachment_filename demo_ingest_env (js ''M1'') 0 ?a0)
      = js ''attachments/M1/invoice.pdf''"
    "js ''attachments/'' @ js ''M1'' @ js ''/''
        @ sanitize (attachment_filename demo_ingest_env (js ''M1'') 2 ?a2)
      = js ''attachments/M1/attachment-M1-1700000000002.pdf''"
    "js ''attachments/'' @ js ''M1'' @ js ''/''
        @ sanitize (attachment_filename demo_ingest_env (js ''M1'') 3 ?a3)
      = js ''attachments/M1/Scan_1.PDF''"
    by (simp_all add: attachment_filename_def sanitize_def safe_unit_def js_def
        demo_ingest_env_def show_nat.simps)
  have w: "write_accepted demo_ingest_env (js ''M1'') (0, ?a0)"
    "write_accepted demo_ingest_env (js ''M1'') (2, ?a2)"
    "write_accepted demo_ingest_env (js ''M1'') (3, ?a3)"
    unfolding write_accepted_def attachmentKey_def prod.case k
    by (simp_all add: demo_ingest_env_def)
  have "length (filter is_pdf (attachments ?mail)) = 3"
    unfolding f by simp
  then have n: "show_nat (length (filter is_pdf (attachments ?mail))) = js ''3''"
    by (simp only: show_nat.simps [of 3]) (simp add: js_def)
  from ingest_uploads [OF h1 h2 demo_mail_keys(1) h4 h5 h6 h7 h8]
  obtain response tr where
    c0: "ingest_handler demo_ingest_env [demo_ses_record ''M1'' ''M1.eml''] = Inr (response, tr)"
    and c1: "put_keys tr =
          map (\<lambda>(i, a). js ''attachments/'' @ js ''M1'' @ js ''/''
                           @ sanitize (attachment_filename demo_ingest_env (js ''M1'') i a))
            (retained (attachments ?mail))"
    and c3: "skipped tr = length (filter (\<lambda>a. \<not> is_pdf a) (attachments ?mail))"
    and c4: "stored_keys demo_ingest_env tr =
          map (\<lambda>(i, a). js ''attachments/'' @ js ''M1'' @ js ''/''
                           @ sanitize (attachment_filename demo_ingest_env (js ''M1'') i a))
            (filter (write_accepted demo_ingest_env (js ''M1'')) (retained (attachments ?mail)))"
    and c5: "list_all (write_accepted demo_ingest_env (js ''M1'')) (retained (attachments ?mail)) \<longrightarrow>
           response = \<lparr>statusCode = 200,
                       body = js ''Successfully processed email '' @ js ''M1'' @ js ''. ''
                              @ show_nat (length (filter is_pdf (attachments ?mail)))
                              @ js '' PDF(s) uploaded.''\<rparr>"
    by blast
  have d1: "put_keys tr = [js ''attachments/M1/invoice.pdf'',
                      js ''attachments/M1/attachment-M1-1700000000002.pdf'',
                      js ''attachments/M1/Scan_1.PDF'']"
    unfolding c1 r by (simp add: k)
  have d2: "stored_keys demo_ingest_env tr = put_keys tr"
    unfolding c4 c1 r by (simp add: w)
  have d3: "skipped tr = Suc 0"
    unfolding c3 f by simp
  have "list_all (write_accepted demo_ingest_env (js ''M1'')) (retained (attachments ?mail))"
    unfolding r by (simp add: w)
  with c5 have "response = \<lparr>statusCode = 200,
                       body = js ''Successfully processed email '' @ js ''M1'' @ js ''. ''
                              @ show_nat (length (filter is_pdf (attachments ?mail)))
                              @ js '' PDF(s) uploaded.''\<rparr>"
    by (rule mp)
  then have d4: "response = \<lparr>statusCode = 200,
                    body = js ''Successfully processed email M1. 3 PDF(s) uploaded.''\<rparr>"
    unfolding n by (simp add: js_append [symmetric])
  show ?thesis
    apply (rule exI [of _ response])
    apply (rule exI [of _ tr])
    apply (intro conjI)
    apply (rule c0 d1 d2 d3 d4)+
    done
qed

text \<open>
  An event whose second record is empty, and the event of that empty record alone.
\<close>

lemma ingest_first_record_only_example:
  "ingest_handler demo_ingest_env [demo_ses_record ''M1'' ''M1.eml'', \<lparr>ses = None, s3 = None\<rparr>]
     = ingest_handler demo_ingest_env [demo_ses_record ''M1'' ''M1.eml'']
   \<and> (\<exists>response tr. ingest_handler demo_ingest_env [\<lparr>ses = None, s3 = None\<rparr>] = Inr (response, tr)
          \<and> statusCode response = 400 \<and> storage_calls tr = [])"
proof -
  have n: "record_messageId [\<lparr>ses = None, s3 = None\<rparr>] = None"
    by (simp add: record_messageId_def)
  note t = ingest_first_record_only [of demo_ingest_env "demo_ses_record ''M1'' ''M1.eml''"
      "[\<lparr>ses = None, s3 = None\<rparr>]" "[\<lparr>ses = None, s3 = None\<rparr>]"]
  show ?thesis
    by (rule conjI [OF t [THEN conjunct1] t [THEN conjunct2, rule_format, OF disjI1 [OF n]]])
qed

text \<open>
  Claim C10, at first records that lack the expected S3 structure below the parts that
  line 57 tests. When the object has no key, the test passes and reading \<open>replace\<close> of
  the absent key on line 64, before the \<open>try\<close> block, raises a \<open>TypeError\<close>: the handler
  raises instead of returning the response of status 400. When the bucket has no name,
  the test passes likewise, the handler calls \<open>s3.getObject\<close> without a bucket and
  answers with status 500.
\<close>

theorem ingest_keyless_object_raises:
  "ingest_handler demo_ingest_env
     [\<lparr>ses = Some (SesPart (Some (SesMail (Some (js ''M1''))))),
       s3 = Some (S3Part (Some (BucketPart (Some (js ''raw-mail'')))) (Some (ObjectPart None)))\<rparr>]
     = Inl (JsError (js ''TypeError'')
              (js ''Cannot read properties of undefined (reading '' @ [39] @ js ''replace'' @ [39] @ js '')'')
              (Some (demo_stack (js ''TypeError'')
                 (js ''Cannot read properties of undefined (reading '' @ [39] @ js ''replace'' @ [39] @ js '')''))))
   \<and> statusCode (fst (projr (ingest_handler demo_ingest_env
        [\<lparr>ses = Some (SesPart (Some (SesMail (Some (js ''M1''))))),
          s3 = Some (S3Part (Some (BucketPart None)) (Some (ObjectPart (Some (js ''M1.eml'')))))\<rparr>])))
     = 500
   \<and> storage_calls (snd (projr (ingest_handler demo_ingest_env
        [\<lparr>ses = Some (SesPart (Some (SesMail (Some (js ''M1''))))),
          s3 = Some (S3Part (Some (BucketPart None)) (Some (ObjectPart (Some (js ''M1.eml'')))))\<rparr>])))
     = [S3GetObject None (js ''M1.eml'')]"
proof -
  have s: "captureStackTrace demo_ingest_env = demo_stack"
    by (simp add: demo_ingest_env_def)
  have g: "getObject demo_ingest_env None (js ''M1.eml'') =
      Inl (JsError (js ''NoSuchKey'') (js ''The specified key does not exist.'') None)"
    by (simp add: demo_ingest_env_def)
  have t: "ingest_try demo_ingest_env (js ''M1'') None (js ''M1.eml'') =
      (Inl (JsError (js ''NoSuchKey'') (js ''The specified key does not exist.'') None),
       [S3GetObject None (js ''M1.eml'')])"
    by (simp add: ingest_try_def g)
  have a: "ingest_handler demo_ingest_env
     [\<lparr>ses = Some (SesPart (Some (SesMail (Some (js ''M1''))))),
       s3 = Some (S3Part (Some (BucketPart (Some (js ''raw-mail'')))) (Some (ObjectPart None)))\<rparr>]
     = Inl (JsError (js ''TypeError'')
              (js ''Cannot read properties of undefined (reading '' @ [39] @ js ''replace'' @ [39] @ js '')'')
              (Some (demo_stack (js ''TypeError'')
                 (js ''Cannot read properties of undefined (reading '' @ [39] @ js ''replace'' @ [39] @ js '')''))))"
    by (simp add: ingest_handler_def bucket_configured record_messageId_def record_source_def
        throw_new_def s Let_def)
  have b: "ingest_handler demo_ingest_env
        [\<lparr>ses = Some (SesPart (Some (SesMail (Some (js ''M1''))))),
          s3 = Some (S3Part (Some (BucketPart None)) (Some (ObjectPart (Some (js ''M1.eml'')))))\<rparr>]
     = Inr (\<lparr>statusCode = 500,
             body = js ''Error processing email: '' @ js ''The specified key does not exist.''\<rparr>,
            [ConsoleLog ''SES Email Processor event received:'',
             ConsoleLog ''Processing email with Message ID:'',
             ConsoleLog ''Fetching raw email from'',
             S3GetObject None (js ''M1.eml''),
             ConsoleError ''Error processing email''])"
    by (simp add: ingest_handler_def bucket_configured record_messageId_def record_source_def
        demo_mail_keys t Let_def)
  show ?thesis
    unfolding b by (simp add: a)
qed

lemma safe_unit_underscore: "safe_unit 95"
  by (simp add: safe_unit_def)

text \<open>
  Claim C7. Sanitizing a filename twice gives the same result as sanitizing it once:
  for every string \<open>s\<close>, \<open>sanitize (sanitize s) = sanitize s\<close>.
\<close>

theorem sanitize_idempotent: "sanitize (sanitize s) = sanitize s"
  by (induction s) (simp_all add: sanitize_def safe_unit_underscore)

end
